theory Spec2Isabelle
  imports Main
begin

section \<open>What the program takes from JavaScript\<close>

text \<open>
  Field values are opaque to the program: it stores them, reads them and compares them
  with \<open>!=\<close>. So the values are a type parameter \<open>'v\<close>, and the three things the program
  takes from the language are given with it: the value \<open>undefined\<close>, the operator \<open>!=\<close> on
  values, and the members of \<open>Object.prototype\<close>, which every object literal inherits
  (\<open>None\<close> for a name that is not a member). Nothing is assumed about them: \<open>!=\<close> need not
  be irreflexive (\<open>NaN != NaN\<close> is true), and a string may be loosely equal to a number.
\<close>

record 'v javascript =
  js_undefined :: 'v
  loose_ne :: "'v \<Rightarrow> 'v \<Rightarrow> bool"
  Object_prototype :: "string \<Rightarrow> 'v option"

text \<open>
  A record object is its own properties, in the order a \<open>for (k in obj)\<close> loop visits
  them, under the prototype \<open>Object.prototype\<close>. (The name \<open>__proto__\<close>, whose assignment
  replaces the prototype instead of creating a property, is not a property name of a
  record.)
\<close>

type_synonym 'v jsobject = "(string \<times> 'v) list"

definition keys :: "'v jsobject \<Rightarrow> string list" where
  "keys obj = map fst obj"

definition owns :: "'v jsobject \<Rightarrow> string \<Rightarrow> bool" where
  "owns obj k = (k \<in> set (keys obj))"

text \<open>
  Property lookup: the object's own property, else the member of \<open>Object.prototype\<close>.
  The read \<open>obj[k]\<close> gives \<open>undefined\<close> when the lookup finds nothing.
\<close>

definition lookup :: "'v javascript \<Rightarrow> 'v jsobject \<Rightarrow> string \<Rightarrow> 'v option" where
  "lookup js obj k = (case map_of obj k of Some v \<Rightarrow> Some v | None \<Rightarrow> Object_prototype js k)"

definition getProperty :: "'v javascript \<Rightarrow> 'v jsobject \<Rightarrow> string \<Rightarrow> 'v" where
  "getProperty js obj k = (case lookup js obj k of Some v \<Rightarrow> v | None \<Rightarrow> js_undefined js)"

text \<open>
  The assignment \<open>obj[k] = v\<close>. An owned property keeps its place. A new property whose
  name is an array index (a canonical decimal numeral up to \<open>2^32 - 2\<close>) goes among the
  array indices, which come first in ascending order; any other new property goes last.
\<close>

definition is_digit :: "char \<Rightarrow> bool" where
  "is_digit ch = (48 \<le> (of_char ch :: nat) \<and> (of_char ch :: nat) \<le> 57)"

definition digits_value :: "string \<Rightarrow> int" where
  "digits_value ds = foldl (\<lambda>acc ch. 10 * acc + (int (of_char ch) - 48)) 0 ds"

definition array_index :: "string \<Rightarrow> int option" where
  "array_index k =
     (if k \<noteq> [] \<and> list_all is_digit k \<and> (hd k \<noteq> CHR ''0'' \<or> length k = 1)
         \<and> length k \<le> 10 \<and> digits_value k \<le> 4294967294
      then Some (digits_value k) else None)"

fun update_property :: "'v jsobject \<Rightarrow> string \<Rightarrow> 'v \<Rightarrow> 'v jsobject" where
  "update_property [] k v = []"
| "update_property (p # ps) k v =
     (if fst p = k then (k, v) # ps else p # update_property ps k v)"

fun insert_property :: "'v jsobject \<Rightarrow> string \<Rightarrow> 'v \<Rightarrow> 'v jsobject" where
  "insert_property [] k v = [(k, v)]"
| "insert_property (p # ps) k v =
     (case array_index k of
        None \<Rightarrow> p # insert_property ps k v
      | Some n \<Rightarrow>
          (case array_index (fst p) of
             None \<Rightarrow> (k, v) # p # ps
           | Some m \<Rightarrow> if m < n then p # insert_property ps k v else (k, v) # p # ps))"

definition setProperty :: "'v jsobject \<Rightarrow> string \<Rightarrow> 'v \<Rightarrow> 'v jsobject" where
  "setProperty obj k v = (if owns obj k then update_property obj k v else insert_property obj k v)"

text \<open>
  \<open>goog.object.clone\<close> copies the own properties of its argument into a new object; called
  on \<open>null\<close> or \<open>undefined\<close> it returns an empty object. This is the content of the copy.
\<close>

fun clone :: "'v jsobject option \<Rightarrow> 'v jsobject" where
  "clone None = []"
| "clone (Some obj) = obj"

section \<open>Positions, events and errors\<close>

datatype position = BOF | EOF | NEW | Index int

datatype cursor_event_type =
    MOVE_FIRST | MOVE_BACKWARD | MOVE_FORWARD | MOVE_LAST
  | MOVE_TO | CREATE_NEW | DELETE_CURRENT_ROW
  | BEFORE_DISCARD | DISCARD | BEFORE_SAVE | SAVE
  | BEFORE_OVERWRITE | OVERWRITE | MODIFIED

text \<open>
  \<open>RowEvent type position\<close> and \<open>MovementEvent type oldPosition newPosition\<close> are the two
  event classes of the cursor (the new position of a movement event is optional);
  \<open>PlainEvent type numRows newPosition\<close> is the object literal the movement methods
  dispatch.
\<close>

datatype cursor_event =
    RowEvent cursor_event_type position
  | MovementEvent cursor_event_type position "position option"
  | PlainEvent cursor_event_type "int option" position

fun event_type :: "cursor_event \<Rightarrow> cursor_event_type" where
  "event_type (RowEvent t _) = t"
| "event_type (MovementEvent t _ _) = t"
| "event_type (PlainEvent t _ _) = t"

datatype datasource_event_type = ROWS_INSERT | ROWS_UPDATE | ROWS_DELETE

datatype logged =
    CursorEvent nat cursor_event
  | DatasourceEvent datasource_event_type "int list"

text \<open>
  The exceptions of the program, and the two of the language it can run into: TypeError
  (a call of something that is not a function, a property of \<open>null\<close>) and RangeError (the
  call stack is exhausted).
\<close>

datatype 'v error =
    NoSuchRecord
  | ConcurrentModification "'v jsobject"
  | IllegalMove
  | NoCurrentRecord
  | NoSuchField
  | DiscardBlocked
  | OverwriteBlocked
  | AssertionError
  | TypeError
  | RangeError

text \<open>
  The call \<open>obj.hasOwnProperty(k)\<close> looks the method up like any property. It finds the
  built-in method of \<open>Object.prototype\<close> unless the object owns a property of that name
  with another value; the values of a record are data, so calling any other value is a
  TypeError.
\<close>

definition hasOwnProperty_is_builtin :: "'v javascript \<Rightarrow> 'v jsobject \<Rightarrow> bool" where
  "hasOwnProperty_is_builtin js obj =
     (lookup js obj ''hasOwnProperty'' \<noteq> None
      \<and> lookup js obj ''hasOwnProperty'' = Object_prototype js ''hasOwnProperty'')"

definition hasOwnProperty :: "'v javascript \<Rightarrow> 'v jsobject \<Rightarrow> string \<Rightarrow> 'v error + bool" where
  "hasOwnProperty js obj k =
     (if hasOwnProperty_is_builtin js obj then Inr (owns obj k) else Inl TypeError)"

section \<open>The state: one datasource, its cursors, the objects the cursors hold\<close>

record column =
  name :: string
  caption :: string

type_synonym ref = nat

text \<open>
  A cursor holds its two record objects by reference (\<open>None\<close> is \<open>null\<close> or \<open>undefined\<close>):
  \<open>setFieldValue\<close> mutates the object behind \<open>currentRecordValues_f\<close> in place. A listener
  is the event type it is registered for and the value its handler returns (\<open>False\<close>
  cancels); handlers have no effect on the state.
\<close>

record cursor =
  position_f :: position
  currentRecordValues_f :: "ref option"
  currentRecordAsLoaded_f :: "ref option"
  listeners :: "(cursor_event_type \<times> (cursor_event \<Rightarrow> bool)) list"

text \<open>
  The datasource (\<open>columns_f\<close>, \<open>data_f\<close>) holds its rows by value: it stores and hands out
  clones only. \<open>cursors\<close> are the cursors by identity; the first \<open>cursorCount\<close> of them have
  been constructed, and so listen to the datasource's ROWS_INSERT. \<open>heap\<close> is the store
  of the cursors' record objects, \<open>nextRef\<close> the next unused reference. \<open>trace\<close> lists
  every event dispatched, in order.
\<close>

record 'v world =
  columns_f :: "column list"
  data_f :: "'v jsobject list"
  cursors :: "nat \<Rightarrow> cursor"
  cursorCount :: nat
  heap :: "ref \<Rightarrow> 'v jsobject"
  nextRef :: ref
  trace :: "logged list"

type_synonym ('v, 'a) result = "('v error + 'a) \<times> 'v world"

definition new_object :: "'v world \<Rightarrow> 'v jsobject \<Rightarrow> ref \<times> 'v world" where
  "new_object w obj =
     (nextRef w, w\<lparr>heap := (heap w)(nextRef w := obj), nextRef := Suc (nextRef w)\<rparr>)"

text \<open>What a callee reads through an argument that is an object reference or null.\<close>

definition deref :: "'v world \<Rightarrow> ref option \<Rightarrow> 'v jsobject option" where
  "deref w r = map_option (heap w) r"

section \<open>SimpleDatasource\<close>

definition SimpleDatasource :: "column list \<Rightarrow> 'v jsobject list \<Rightarrow> 'v world" where
  "SimpleDatasource columns rows =
     \<lparr>columns_f = columns, data_f = map (\<lambda>row. clone (Some row)) rows,
      cursors = (\<lambda>_. \<lparr>position_f = BOF, currentRecordValues_f = None,
                        currentRecordAsLoaded_f = None, listeners = []\<rparr>),
      cursorCount = 0, heap = (\<lambda>_. []), nextRef = 0, trace = []\<rparr>"

definition getColumns :: "'v world \<Rightarrow> column list" where
  "getColumns w = columns_f w"

definition getCount :: "'v world \<Rightarrow> int option" where
  "getCount w = Some (int (length (data_f w)))"

definition assertValidRow :: "'v world \<Rightarrow> int \<Rightarrow> int option \<Rightarrow> 'v error + unit" where
  "assertValidRow w rowIndex opt_maxIndex =
     (if rowIndex < 0 then Inl NoSuchRecord
      else let maxIndex = (case opt_maxIndex of
                             None \<Rightarrow> int (length (data_f w)) - 1
                           | Some m \<Rightarrow> m)
           in if rowIndex > maxIndex then Inl NoSuchRecord else Inr ())"

definition get :: "'v world \<Rightarrow> int \<Rightarrow> 'v error + 'v jsobject" where
  "get w rowIndex =
     (case assertValidRow w rowIndex None of
        Inl e \<Rightarrow> Inl e
      | Inr _ \<Rightarrow> Inr (clone (Some (data_f w ! nat rowIndex))))"

definition replace :: "'v world \<Rightarrow> int \<Rightarrow> 'v jsobject option \<Rightarrow> ('v, unit) result" where
  "replace w rowIndex newRecord =
     (case assertValidRow w rowIndex None of
        Inl e \<Rightarrow> (Inl e, w)
      | Inr _ \<Rightarrow>
          (Inr (), w\<lparr>data_f := (data_f w)[nat rowIndex := clone newRecord],
                     trace := trace w @ [DatasourceEvent ROWS_UPDATE [rowIndex]]\<rparr>))"

definition remove :: "'v world \<Rightarrow> int \<Rightarrow> ('v, unit) result" where
  "remove w rowIndex =
     (case assertValidRow w rowIndex None of
        Inl e \<Rightarrow> (Inl e, w)
      | Inr _ \<Rightarrow>
          (Inr (), w\<lparr>data_f := take (nat rowIndex) (data_f w) @ drop (Suc (nat rowIndex)) (data_f w),
                     trace := trace w @ [DatasourceEvent ROWS_DELETE [rowIndex]]\<rparr>))"

text \<open>
  The two loops of \<open>atomicReplace\<close> have one body: they visit the keys of \<open>obj\<close> (the
  actual record first, then the expected one) and stop at the first key that \<open>obj\<close> owns
  and whose values in \<open>expectedCurrentValues\<close> and \<open>actualCurrentValues\<close> are not loosely
  equal.
\<close>

fun isDifferent_loop ::
  "'v javascript \<Rightarrow> string list \<Rightarrow> 'v jsobject \<Rightarrow> 'v jsobject \<Rightarrow> 'v jsobject \<Rightarrow> 'v error + bool"
where
  "isDifferent_loop js [] obj expectedCurrentValues actualCurrentValues = Inr False"
| "isDifferent_loop js (k # ks) obj expectedCurrentValues actualCurrentValues =
     (case hasOwnProperty js obj k of
        Inl e \<Rightarrow> Inl e
      | Inr own \<Rightarrow>
          if own \<and> loose_ne js (getProperty js expectedCurrentValues k)
                              (getProperty js actualCurrentValues k)
          then Inr True
          else isDifferent_loop js ks obj expectedCurrentValues actualCurrentValues)"

definition isDifferent :: "'v javascript \<Rightarrow> 'v jsobject \<Rightarrow> 'v jsobject \<Rightarrow> 'v error + bool" where
  "isDifferent js expectedCurrentValues actualCurrentValues =
     (case isDifferent_loop js (keys actualCurrentValues) actualCurrentValues
             expectedCurrentValues actualCurrentValues of
        Inl e \<Rightarrow> Inl e
      | Inr found \<Rightarrow>
          if found then Inr True
          else isDifferent_loop js (keys expectedCurrentValues) expectedCurrentValues
                 expectedCurrentValues actualCurrentValues)"

definition atomicReplace ::
  "'v javascript \<Rightarrow> 'v world \<Rightarrow> int \<Rightarrow> 'v jsobject option \<Rightarrow> 'v jsobject option
   \<Rightarrow> ('v, unit) result" where
  "atomicReplace js w rowIndex expectedCurrentValues newValues =
     (case expectedCurrentValues of
        None \<Rightarrow> (Inl AssertionError, w)
      | Some expected \<Rightarrow>
     (case newValues of
        None \<Rightarrow> (Inl AssertionError, w)
      | Some _ \<Rightarrow>
     (case assertValidRow w rowIndex None of
        Inl e \<Rightarrow> (Inl e, w)
      | Inr _ \<Rightarrow>
     (case get w rowIndex of
        Inl e \<Rightarrow> (Inl e, w)
      | Inr actualCurrentValues \<Rightarrow>
     (case isDifferent js expected actualCurrentValues of
        Inl e \<Rightarrow> (Inl e, w)
      | Inr different \<Rightarrow>
          if different then (Inl (ConcurrentModification actualCurrentValues), w)
          else replace w rowIndex newValues)))))"

section \<open>Cursor\<close>

text \<open>
  The constructor: the new cursor starts at BOF with no record objects and no listener
  of its own, and registers \<open>handleDataSourceRowInsert\<close> with the datasource.
\<close>

definition Cursor :: "'v world \<Rightarrow> nat \<times> 'v world" where
  "Cursor w =
     (cursorCount w,
      w\<lparr>cursors := (cursors w)(cursorCount w :=
            \<lparr>position_f = BOF, currentRecordValues_f = None,
             currentRecordAsLoaded_f = None, listeners = []\<rparr>),
        cursorCount := Suc (cursorCount w)\<rparr>)"

definition addEventListener ::
  "nat \<Rightarrow> 'v world \<Rightarrow> cursor_event_type \<Rightarrow> (cursor_event \<Rightarrow> bool) \<Rightarrow> 'v world" where
  "addEventListener c w t handler =
     w\<lparr>cursors := (cursors w)(c :=
          (cursors w c)\<lparr>listeners := listeners (cursors w c) @ [(t, handler)]\<rparr>)\<rparr>"

text \<open>
  \<open>dispatchEvent\<close> runs every listener registered for the event's type and returns
  \<open>False\<close> when one of them returned \<open>False\<close>.
\<close>

definition dispatchEvent :: "nat \<Rightarrow> 'v world \<Rightarrow> cursor_event \<Rightarrow> bool \<times> 'v world" where
  "dispatchEvent c w e =
     (list_all (\<lambda>l. snd l e) (filter (\<lambda>l. fst l = event_type e) (listeners (cursors w c))),
      w\<lparr>trace := trace w @ [CursorEvent c e]\<rparr>)"

definition getRowCount :: "'v world \<Rightarrow> int option" where
  "getRowCount w = getCount w"

definition getPosition :: "nat \<Rightarrow> 'v world \<Rightarrow> position" where
  "getPosition c w = position_f (cursors w c)"

definition assertValidPosition :: "'v world \<Rightarrow> position \<Rightarrow> 'v error + bool" where
  "assertValidPosition w position =
     (let rowCount = getRowCount w in
      case position of
        BOF \<Rightarrow> Inr True
      | EOF \<Rightarrow> Inr True
      | NEW \<Rightarrow> Inr True
      | Index i \<Rightarrow>
          if 0 \<le> i \<and> (case rowCount of None \<Rightarrow> True | Some n \<Rightarrow> i < n) then Inr True
          else Inl IllegalMove)"

text \<open>
  The loop of \<open>reloadRecord\<close>: for each column,
  \<open>currentRecordValues_[name] = currentRecordAsLoaded_[name] = record[name]\<close>.
\<close>

fun reloadRecord_loop ::
  "'v javascript \<Rightarrow> column list \<Rightarrow> 'v jsobject \<Rightarrow> ref \<Rightarrow> ref \<Rightarrow> (ref \<Rightarrow> 'v jsobject)
   \<Rightarrow> (ref \<Rightarrow> 'v jsobject)" where
  "reloadRecord_loop js [] record values loaded h = h"
| "reloadRecord_loop js (col # cols) record values loaded h =
     (let v = getProperty js record (name col);
          h1 = h(loaded := setProperty (h loaded) (name col) v);
          h2 = h1(values := setProperty (h1 values) (name col) v)
      in reloadRecord_loop js cols record values loaded h2)"

definition set_records :: "nat \<Rightarrow> 'v world \<Rightarrow> ref option \<Rightarrow> ref option \<Rightarrow> 'v world" where
  "set_records c w values loaded =
     w\<lparr>cursors := (cursors w)(c :=
          (cursors w c)\<lparr>currentRecordValues_f := values, currentRecordAsLoaded_f := loaded\<rparr>)\<rparr>"

definition reloadRecord :: "'v javascript \<Rightarrow> nat \<Rightarrow> 'v world \<Rightarrow> ('v, unit) result" where
  "reloadRecord js c w =
     (case position_f (cursors w c) of
        BOF \<Rightarrow> (Inr (), set_records c w None None)
      | EOF \<Rightarrow> (Inr (), set_records c w None None)
      | NEW \<Rightarrow>
          (let (values, w1) = new_object w [];
               (loaded, w2) = new_object w1 []
           in (Inr (), set_records c w2 (Some values) (Some loaded)))
      | Index i \<Rightarrow>
          (let (values, w1) = new_object w [];
               (loaded, w2) = new_object w1 [];
               w3 = set_records c w2 (Some values) (Some loaded);
               columns = getColumns w3
           in case get w3 i of
                Inl e \<Rightarrow> (Inl e, w3)
              | Inr record \<Rightarrow>
                  (Inr (), w3\<lparr>heap := reloadRecord_loop js columns record values loaded
                                         (heap w3)\<rparr>)))"

definition moveInternal ::
  "'v javascript \<Rightarrow> nat \<Rightarrow> 'v world \<Rightarrow> position \<Rightarrow> ('v, unit) result" where
  "moveInternal js c w newPosition =
     (let oldPosition = position_f (cursors w c);
          w1 = w\<lparr>cursors := (cursors w)(c := (cursors w c)\<lparr>position_f := newPosition\<rparr>)\<rparr>
      in case reloadRecord js c w1 of
           (Inl e, w2) \<Rightarrow> (Inl e, w2)
         | (Inr _, w2) \<Rightarrow>
             (Inr (), snd (dispatchEvent c w2
                            (MovementEvent MOVE_TO oldPosition (Some newPosition)))))"

text \<open>The two loops of \<open>isDirty\<close>, over the keys of \<open>newValues\<close> and of \<open>oldValues\<close>.\<close>

fun isDirty_loop1 ::
  "'v javascript \<Rightarrow> string list \<Rightarrow> 'v jsobject \<Rightarrow> 'v jsobject \<Rightarrow> 'v error + bool" where
  "isDirty_loop1 js [] newValues oldValues = Inr False"
| "isDirty_loop1 js (p # ps) newValues oldValues =
     (case hasOwnProperty js newValues p of
        Inl e \<Rightarrow> Inl e
      | Inr own_new \<Rightarrow>
          if \<not> own_new then isDirty_loop1 js ps newValues oldValues
          else (case hasOwnProperty js oldValues p of
                  Inl e \<Rightarrow> Inl e
                | Inr own_old \<Rightarrow>
                    if \<not> own_old then Inr True
                    else if loose_ne js (getProperty js oldValues p) (getProperty js newValues p)
                    then Inr True
                    else isDirty_loop1 js ps newValues oldValues))"

fun isDirty_loop2 ::
  "'v javascript \<Rightarrow> string list \<Rightarrow> 'v jsobject \<Rightarrow> 'v jsobject \<Rightarrow> 'v error + bool" where
  "isDirty_loop2 js [] newValues oldValues = Inr False"
| "isDirty_loop2 js (p # ps) newValues oldValues =
     (case hasOwnProperty js oldValues p of
        Inl e \<Rightarrow> Inl e
      | Inr own_old \<Rightarrow>
          if \<not> own_old then isDirty_loop2 js ps newValues oldValues
          else (case hasOwnProperty js newValues p of
                  Inl e \<Rightarrow> Inl e
                | Inr own_new \<Rightarrow>
                    if \<not> own_new then Inr True
                    else isDirty_loop2 js ps newValues oldValues))"

text \<open>
  With a record in \<open>currentRecordValues_\<close> that has a property and none in
  \<open>currentRecordAsLoaded_\<close>, the first iteration of the first loop calls a method of
  \<open>null\<close>, or before that a \<open>hasOwnProperty\<close> that is not a function: a TypeError.
\<close>

definition isDirty :: "'v javascript \<Rightarrow> nat \<Rightarrow> 'v world \<Rightarrow> 'v error + bool" where
  "isDirty js c w =
     (case currentRecordValues_f (cursors w c) of
        None \<Rightarrow> Inr False
      | Some values \<Rightarrow>
          let newValues = heap w values in
          (case currentRecordAsLoaded_f (cursors w c) of
             None \<Rightarrow> if newValues = [] then Inr False else Inl TypeError
           | Some loaded \<Rightarrow>
               let oldValues = heap w loaded in
               (case isDirty_loop1 js (keys newValues) newValues oldValues of
                  Inl e \<Rightarrow> Inl e
                | Inr found \<Rightarrow>
                    if found then Inr True
                    else isDirty_loop2 js (keys oldValues) newValues oldValues)))"

definition assertCurrentRecord :: "nat \<Rightarrow> 'v world \<Rightarrow> 'v error + unit" where
  "assertCurrentRecord c w =
     (if position_f (cursors w c) = BOF \<or> position_f (cursors w c) = EOF
      then Inl NoCurrentRecord else Inr ())"

primrec assertValidField_loop :: "column list \<Rightarrow> string \<Rightarrow> 'v error + unit" where
  "assertValidField_loop [] fieldName = Inl NoSuchField"
| "assertValidField_loop (col # cols) fieldName =
     (if name col = fieldName then Inr () else assertValidField_loop cols fieldName)"

definition assertValidField :: "'v world \<Rightarrow> string \<Rightarrow> 'v error + unit" where
  "assertValidField w fieldName = assertValidField_loop (getColumns w) fieldName"

text \<open>
  \<open>getLoadedValues\<close> and \<open>getCurrentValues\<close> return a new object, a clone of the cursor's.
\<close>

definition getLoadedValues :: "nat \<Rightarrow> 'v world \<Rightarrow> ('v, ref) result" where
  "getLoadedValues c w =
     (case assertCurrentRecord c w of
        Inl e \<Rightarrow> (Inl e, w)
      | Inr _ \<Rightarrow>
          (let (r, w1) = new_object w (clone (deref w (currentRecordAsLoaded_f (cursors w c))))
           in (Inr r, w1)))"

definition getCurrentValues :: "nat \<Rightarrow> 'v world \<Rightarrow> ('v, ref) result" where
  "getCurrentValues c w =
     (case assertCurrentRecord c w of
        Inl e \<Rightarrow> (Inl e, w)
      | Inr _ \<Rightarrow>
          (let (r, w1) = new_object w (clone (deref w (currentRecordValues_f (cursors w c))))
           in (Inr r, w1)))"

definition setFieldValue :: "nat \<Rightarrow> 'v world \<Rightarrow> string \<Rightarrow> 'v \<Rightarrow> ('v, unit) result" where
  "setFieldValue c w fieldName newValue =
     (case assertCurrentRecord c w of
        Inl e \<Rightarrow> (Inl e, w)
      | Inr _ \<Rightarrow>
     (case assertValidField w fieldName of
        Inl e \<Rightarrow> (Inl e, w)
      | Inr _ \<Rightarrow>
     (case currentRecordValues_f (cursors w c) of
        None \<Rightarrow> (Inl TypeError, w)
      | Some values \<Rightarrow>
          (let w1 = w\<lparr>heap := (heap w)(values := setProperty (heap w values) fieldName newValue)\<rparr>
           in (Inr (), snd (dispatchEvent c w1 (RowEvent MODIFIED (getPosition c w1))))))))"

text \<open>
  \<open>setPosition\<close>, \<open>maybeDiscard\<close> and \<open>discard\<close> call each other: \<open>discard\<close> at NEW moves the
  cursor with \<open>setPosition\<close>, which asks \<open>maybeDiscard\<close> again, which calls \<open>discard\<close> again
  if the cursor is still dirty. Where a loaded value is not loosely equal to itself the
  cursor stays dirty and the calls nest without end, until the call stack is exhausted
  and a RangeError is thrown. \<open>depth\<close> is the number of times \<open>discard\<close> may still call
  back into \<open>setPosition\<close> before that happens.
\<close>

function setPosition ::
    "'v javascript \<Rightarrow> nat \<Rightarrow> nat \<Rightarrow> 'v world \<Rightarrow> position \<Rightarrow> ('v, unit) result"
  and maybeDiscard ::
    "'v javascript \<Rightarrow> nat \<Rightarrow> nat \<Rightarrow> 'v world \<Rightarrow> position option \<Rightarrow> ('v, bool) result"
  and discard ::
    "'v javascript \<Rightarrow> nat \<Rightarrow> nat \<Rightarrow> 'v world \<Rightarrow> position option \<Rightarrow> ('v, unit) result"
where
  "setPosition js depth c w newPosition =
     (case assertValidPosition w newPosition of
        Inl e \<Rightarrow> (Inl e, w)
      | Inr _ \<Rightarrow>
     (case maybeDiscard js depth c w (Some newPosition) of
        (Inl e, w1) \<Rightarrow> (Inl e, w1)
      | (Inr _, w1) \<Rightarrow>
          if newPosition \<noteq> position_f (cursors w1 c) then moveInternal js c w1 newPosition
          else (Inr (), w1)))"
| "maybeDiscard js depth c w opt_newPosition =
     (case isDirty js c w of
        Inl e \<Rightarrow> (Inl e, w)
      | Inr dirty \<Rightarrow>
          if dirty then
            (case assertCurrentRecord c w of
               Inl e \<Rightarrow> (Inl e, w)
             | Inr _ \<Rightarrow>
                 (case dispatchEvent c w
                         (MovementEvent BEFORE_DISCARD (getPosition c w) opt_newPosition) of
                    (ok, w1) \<Rightarrow>
                      let cancelled = \<not> ok in
                      if cancelled then (Inl DiscardBlocked, w1)
                      else (case discard js depth c w1 None of
                              (Inl e, w2) \<Rightarrow> (Inl e, w2)
                            | (Inr _, w2) \<Rightarrow> (Inr True, w2))))
          else (Inr True, w))"
| "discard js depth c w opt_newPosition =
     (case assertCurrentRecord c w of
        Inl e \<Rightarrow> (Inl e, w)
      | Inr _ \<Rightarrow>
     (case isDirty js c w of
        Inl e \<Rightarrow> (Inl e, w)
      | Inr dirty \<Rightarrow>
          if \<not> dirty then (Inr (), w)
          else
            (case getLoadedValues c w of
               (Inl e, w1) \<Rightarrow> (Inl e, w1)
             | (Inr r, w1) \<Rightarrow>
                 let w2 = w1\<lparr>cursors := (cursors w1)(c :=
                            (cursors w1 c)\<lparr>currentRecordValues_f := Some r\<rparr>)\<rparr>;
                     w3 = snd (dispatchEvent c w2
                                (MovementEvent DISCARD (getPosition c w2) opt_newPosition))
                 in (case (if getPosition c w3 = NEW
                           then (case depth of
                                   0 \<Rightarrow> (Inl RangeError, w3)
                                 | Suc deeper \<Rightarrow>
                                     setPosition js deeper c w3
                                       (Index ((case getRowCount w3 of None \<Rightarrow> 0 | Some n \<Rightarrow> n)
                                               - 1)))
                           else (Inr (), w3)) of
                       (Inl e, w4) \<Rightarrow> (Inl e, w4)
                     | (Inr _, w4) \<Rightarrow>
                         (Inr (), snd (dispatchEvent c w4
                                         (RowEvent MODIFIED (getPosition c w4))))))))"
  by pat_completeness auto

termination
  by (relation "measure (\<lambda>x. case x of
            Inl (js, depth, c, w, p) \<Rightarrow> 3 * depth + 2
          | Inr (Inl (js, depth, c, w, p)) \<Rightarrow> 3 * depth + 1
          | Inr (Inr (js, depth, c, w, p)) \<Rightarrow> 3 * depth)") auto

declare setPosition.simps [simp del] maybeDiscard.simps [simp del] discard.simps [simp del]

text \<open>
  \<open>moveRelative\<close> in its three parts: the first chain of conditions resolves the target
  from the current position, the second adjusts a target outside the rows to BOF or EOF,
  and the rest validates, asks to discard, announces and moves.
\<close>

definition moveRelative_resolve :: "nat \<Rightarrow> 'v world \<Rightarrow> int \<Rightarrow> 'v error + position" where
  "moveRelative_resolve c w numRowsToMove =
     (let rowCount = getRowCount w in
      if numRowsToMove = 0 then Inr (position_f (cursors w c))
      else case position_f (cursors w c) of
             BOF \<Rightarrow> if numRowsToMove < 0 then Inl IllegalMove
                    else Inr (Index (numRowsToMove - 1))
           | EOF \<Rightarrow> if numRowsToMove > 0 then Inl IllegalMove
                    else (case rowCount of
                            None \<Rightarrow> Inl IllegalMove
                          | Some n \<Rightarrow> Inr (Index (n + numRowsToMove)))
           | NEW \<Rightarrow> if numRowsToMove > 0 then Inl IllegalMove
                    else (case rowCount of
                            None \<Rightarrow> Inl IllegalMove
                          | Some n \<Rightarrow> Inr (Index (n + numRowsToMove)))
           | Index i \<Rightarrow> Inr (Index (i + numRowsToMove)))"

definition moveRelative_adjust :: "'v world \<Rightarrow> position \<Rightarrow> position" where
  "moveRelative_adjust w newPosition =
     (let rowCount = getRowCount w in
      case newPosition of
        Index i \<Rightarrow>
          if i < 0 then BOF
          else if (case rowCount of None \<Rightarrow> False | Some n \<Rightarrow> i \<ge> n) then EOF
          else Index i
      | sentinel \<Rightarrow> sentinel)"

definition moveRelative ::
  "'v javascript \<Rightarrow> nat \<Rightarrow> nat \<Rightarrow> 'v world \<Rightarrow> int \<Rightarrow> ('v, bool) result" where
  "moveRelative js depth c w numRowsToMove =
     (case moveRelative_resolve c w numRowsToMove of
        Inl e \<Rightarrow> (Inl e, w)
      | Inr target \<Rightarrow>
          let newPosition = moveRelative_adjust w target in
          (case assertValidPosition w newPosition of
             Inl e \<Rightarrow> (Inl e, w)
           | Inr _ \<Rightarrow>
          (case maybeDiscard js depth c w (Some newPosition) of
             (Inl e, w1) \<Rightarrow> (Inl e, w1)
           | (Inr _, w1) \<Rightarrow>
               let w2 = snd (dispatchEvent c w1
                               (PlainEvent MOVE_FORWARD (Some numRowsToMove) newPosition))
               in (case setPosition js depth c w2 newPosition of
                     (Inl e, w3) \<Rightarrow> (Inl e, w3)
                   | (Inr _, w3) \<Rightarrow> (Inr True, w3)))))"

definition moveFirst :: "'v javascript \<Rightarrow> nat \<Rightarrow> nat \<Rightarrow> 'v world \<Rightarrow> ('v, unit) result" where
  "moveFirst js depth c w =
     (let rowCount = getRowCount w;
          newPosition = (if rowCount = Some 0 then EOF else Index 0);
          w1 = snd (dispatchEvent c w (PlainEvent MOVE_FIRST None newPosition))
      in setPosition js depth c w1 newPosition)"

definition moveLast :: "'v javascript \<Rightarrow> nat \<Rightarrow> nat \<Rightarrow> 'v world \<Rightarrow> ('v, unit) result" where
  "moveLast js depth c w =
     (case getRowCount w of
        None \<Rightarrow> (Inl IllegalMove, w)
      | Some rowCount \<Rightarrow>
          let newPosition = Index (rowCount - 1);
              w1 = snd (dispatchEvent c w (PlainEvent MOVE_LAST None newPosition))
          in setPosition js depth c w1 newPosition)"

definition moveNew :: "'v javascript \<Rightarrow> nat \<Rightarrow> nat \<Rightarrow> 'v world \<Rightarrow> ('v, unit) result" where
  "moveNew js depth c w =
     (let newPosition = NEW;
          w1 = snd (dispatchEvent c w (PlainEvent CREATE_NEW None newPosition))
      in setPosition js depth c w1 newPosition)"

text \<open>
  The loop of \<open>handleDataSourceRowInsert\<close>. At BOF, EOF or NEW the test
  \<open>rowIndex <= newPosition\<close> compares a number with a string that is not numeric, and is
  false.
\<close>

fun handleDataSourceRowInsert_loop :: "int list \<Rightarrow> position \<Rightarrow> position" where
  "handleDataSourceRowInsert_loop [] newPosition = newPosition"
| "handleDataSourceRowInsert_loop (rowIndex # affected) newPosition =
     handleDataSourceRowInsert_loop affected
       (case newPosition of
          Index p \<Rightarrow> if rowIndex \<le> p then Index (p + 1) else Index p
        | sentinel \<Rightarrow> sentinel)"

definition handleDataSourceRowInsert ::
  "'v javascript \<Rightarrow> nat \<Rightarrow> 'v world \<Rightarrow> int list \<Rightarrow> ('v, unit) result" where
  "handleDataSourceRowInsert js c w affected =
     (let oldPosition = position_f (cursors w c);
          newPosition = handleDataSourceRowInsert_loop affected oldPosition
      in if newPosition \<noteq> oldPosition then moveInternal js c w newPosition else (Inr (), w))"

section \<open>SimpleDatasource: insertion, which the cursors listen to\<close>

text \<open>
  The datasource dispatches ROWS_INSERT to the cursors in the order of their
  construction; an exception thrown by a handler leaves the dispatch.
\<close>

fun dispatch_ROWS_INSERT ::
  "'v javascript \<Rightarrow> nat list \<Rightarrow> 'v world \<Rightarrow> int list \<Rightarrow> ('v, unit) result" where
  "dispatch_ROWS_INSERT js [] w affected = (Inr (), w)"
| "dispatch_ROWS_INSERT js (c # cs) w affected =
     (case handleDataSourceRowInsert js c w affected of
        (Inl e, w1) \<Rightarrow> (Inl e, w1)
      | (Inr _, w1) \<Rightarrow> dispatch_ROWS_INSERT js cs w1 affected)"

definition insert_ds ::
  "'v javascript \<Rightarrow> 'v world \<Rightarrow> int \<Rightarrow> 'v jsobject option \<Rightarrow> ('v, unit) result" where
  "insert_ds js w rowIndex newRecord =
     (case assertValidRow w rowIndex (Some (int (length (data_f w)))) of
        Inl e \<Rightarrow> (Inl e, w)
      | Inr _ \<Rightarrow>
          let w1 = w\<lparr>data_f := take (nat rowIndex) (data_f w) @ [clone newRecord]
                                  @ drop (nat rowIndex) (data_f w),
                     trace := trace w @ [DatasourceEvent ROWS_INSERT [rowIndex]]\<rparr>
          in dispatch_ROWS_INSERT js [0..<cursorCount w1] w1 [rowIndex])"

definition add :: "'v javascript \<Rightarrow> 'v world \<Rightarrow> 'v jsobject option \<Rightarrow> ('v, int) result" where
  "add js w newRecord =
     (let pos = int (length (data_f w)) in
      case insert_ds js w pos newRecord of
        (Inl e, w1) \<Rightarrow> (Inl e, w1)
      | (Inr _, w1) \<Rightarrow> (Inr pos, w1))"

section \<open>Cursor: save\<close>

text \<open>
  \<open>save\<close> has three ways to write: \<open>add\<close> at NEW, \<open>replace\<close> when forced, else
  \<open>atomicReplace\<close> with the overwrite protocol on ConcurrentModification. At BOF and EOF
  \<open>assertCurrentRecord\<close> has thrown before.
\<close>

definition save_write ::
  "'v javascript \<Rightarrow> nat \<Rightarrow> 'v world \<Rightarrow> bool \<Rightarrow> position option \<Rightarrow> ('v, position) result" where
  "save_write js c w opt_forceOverwrite opt_attemptedPosition =
     (let newPosition = position_f (cursors w c);
          values = deref w (currentRecordValues_f (cursors w c));
          loaded = deref w (currentRecordAsLoaded_f (cursors w c))
      in case position_f (cursors w c) of
           BOF \<Rightarrow> (Inl NoCurrentRecord, w)
         | EOF \<Rightarrow> (Inl NoCurrentRecord, w)
         | NEW \<Rightarrow>
             (case add js w values of
                (Inl e, w1) \<Rightarrow> (Inl e, w1)
              | (Inr pos, w1) \<Rightarrow> (Inr (Index pos), w1))
         | Index i \<Rightarrow>
             if opt_forceOverwrite then
               (case replace w i values of
                  (Inl e, w1) \<Rightarrow> (Inl e, w1)
                | (Inr _, w1) \<Rightarrow> (Inr newPosition, w1))
             else
               (case atomicReplace js w i loaded values of
                  (Inr _, w1) \<Rightarrow> (Inr newPosition, w1)
                | (Inl (ConcurrentModification actual), w1) \<Rightarrow>
                    let event = (case opt_attemptedPosition of
                                   Some attempted \<Rightarrow>
                                     MovementEvent BEFORE_OVERWRITE (getPosition c w1)
                                       (Some attempted)
                                 | None \<Rightarrow> RowEvent BEFORE_OVERWRITE (getPosition c w1))
                    in (case dispatchEvent c w1 event of
                          (ok, w2) \<Rightarrow>
                            let cancelled = \<not> ok in
                            if cancelled then (Inl OverwriteBlocked, w2)
                            else (case replace w2 i values of
                                    (Inl e, w3) \<Rightarrow> (Inl e, w3)
                                  | (Inr _, w3) \<Rightarrow>
                                      (Inr newPosition,
                                       snd (dispatchEvent c w3
                                              (RowEvent OVERWRITE (getPosition c w3))))))
                | (Inl e, w1) \<Rightarrow> (Inl e, w1)))"

definition save ::
  "'v javascript \<Rightarrow> nat \<Rightarrow> 'v world \<Rightarrow> bool \<Rightarrow> bool \<Rightarrow> position option
   \<Rightarrow> ('v, position) result" where
  "save js c w opt_suppressMoveToEvent opt_forceOverwrite opt_attemptedPosition =
     (case assertCurrentRecord c w of
        Inl e \<Rightarrow> (Inl e, w)
      | Inr _ \<Rightarrow>
     (case save_write js c w opt_forceOverwrite opt_attemptedPosition of
        (Inl e, w1) \<Rightarrow> (Inl e, w1)
      | (Inr newPosition, w1) \<Rightarrow>
     (case reloadRecord js c w1 of
        (Inl e, w2) \<Rightarrow> (Inl e, w2)
      | (Inr _, w2) \<Rightarrow>
          let w3 = snd (dispatchEvent c w2 (RowEvent SAVE newPosition)) in
          if newPosition \<noteq> position_f (cursors w3 c) \<and> \<not> opt_suppressMoveToEvent then
            (case moveInternal js c w3 newPosition of
               (Inl e, w4) \<Rightarrow> (Inl e, w4)
             | (Inr _, w4) \<Rightarrow> (Inr newPosition, w4))
          else (Inr newPosition, w3))))"

section \<open>JavaScript on the values of the test suite\<close>

text \<open>
  The values the test suite stores, and a few more: \<open>undefined\<close>, \<open>null\<close>, \<open>NaN\<close>, the numbers
  1, 2 and 5, the numeric strings \<open>'1.0'\<close> and \<open>'2.0'\<close>, the strings \<open>'John'\<close> to \<open>'world'\<close>, and
  \<open>TBuiltin k\<close>, the member \<open>k\<close> of \<open>Object.prototype\<close>.
\<close>

datatype test_value =
    TUndefined | TNull | TNaN
  | TNum_1 | TNum_2 | TNum_5
  | TStr_1_0 | TStr_2_0
  | TStr_John | TStr_James | TStr_Peter | TStr_Stuart | TStr_Jonathan | TStr_Jim
  | TStr_whee | TStr_foo | TStr_bar | TStr_hello | TStr_world
  | TBuiltin string

definition test_is_number :: "test_value \<Rightarrow> bool" where
  "test_is_number a = (a = TNaN \<or> a = TNum_1 \<or> a = TNum_2 \<or> a = TNum_5)"

text \<open>ToNumber on the strings: \<open>'1.0'\<close> is 1, \<open>'2.0'\<close> is 2, the others are not numeric.\<close>

definition test_number_of_string :: "test_value \<Rightarrow> test_value option" where
  "test_number_of_string a =
     (if a = TStr_1_0 then Some TNum_1
      else if a = TStr_2_0 then Some TNum_2
      else if test_is_number a \<or> a = TUndefined \<or> a = TNull then None
      else (case a of TBuiltin k \<Rightarrow> None | _ \<Rightarrow> Some TNaN))"

text \<open>
  The operator \<open>!=\<close> on these values. \<open>undefined\<close> and \<open>null\<close> are equal to themselves and
  to each other, and to nothing else. A number and a string are compared as numbers.
  Any other two values are equal exactly when they are the same, except that \<open>NaN\<close> is
  not equal to itself (a built-in compared with a string or a number is first turned
  into its text, which is none of the strings here and is not numeric).
\<close>

definition test_loose_ne :: "test_value \<Rightarrow> test_value \<Rightarrow> bool" where
  "test_loose_ne a b =
     (if (a = TUndefined \<or> a = TNull) \<and> (b = TUndefined \<or> b = TNull) then False
      else if test_is_number a \<and> test_number_of_string b \<noteq> None
      then test_number_of_string b \<noteq> Some a \<or> a = TNaN
      else if test_is_number b \<and> test_number_of_string a \<noteq> None
      then test_number_of_string a \<noteq> Some b \<or> b = TNaN
      else a \<noteq> b \<or> a = TNaN)"

definition test_prototype :: "string \<Rightarrow> test_value option" where
  "test_prototype k =
     (if k \<in> set [''constructor'', ''toString'', ''toLocaleString'', ''valueOf'',
                   ''hasOwnProperty'', ''isPrototypeOf'', ''propertyIsEnumerable'',
                   ''__proto__'', ''__defineGetter__'', ''__defineSetter__'',
                   ''__lookupGetter__'', ''__lookupSetter__'']
      then Some (TBuiltin k) else None)"

definition js_test :: "test_value javascript" where
  "js_test = \<lparr>js_undefined = TUndefined, loose_ne = test_loose_ne,
              Object_prototype = test_prototype\<rparr>"

section \<open>The test fixture and the notions of the specification\<close>

text \<open>The datasource of the test suite: columns id and name, rows John, James, Peter.\<close>

definition getTestDataSource :: "test_value world" where
  "getTestDataSource = SimpleDatasource
     [\<lparr>name = ''id'', caption = ''ID''\<rparr>, \<lparr>name = ''name'', caption = ''Name''\<rparr>]
     [[(''id'', TNum_1), (''name'', TStr_John)],
      [(''id'', TNum_2), (''name'', TStr_James)],
      [(''id'', TNum_5), (''name'', TStr_Peter)]]"

text \<open>
  The depth the test scenarios run with: \<open>discard\<close> may call back into \<open>setPosition\<close>
  three times.
\<close>

definition test_depth :: nat where
  "test_depth = Suc (Suc (Suc 0))"

text \<open>
  The specification's key diff of two records: the keys present in either whose values,
  as read from the two records, are not loosely equal.
\<close>

definition key_diff :: "'v javascript \<Rightarrow> 'v jsobject \<Rightarrow> 'v jsobject \<Rightarrow> string set" where
  "key_diff js expected actual =
     {k \<in> set (keys expected) \<union> set (keys actual).
        loose_ne js (getProperty js expected k) (getProperty js actual k)}"

text \<open>
  The specification's clamp of a resolved target: below 0 is BOF, at or above a known
  row count is EOF.
\<close>

definition clamp_target :: "int option \<Rightarrow> int \<Rightarrow> position" where
  "clamp_target rowCount target =
     (if target < 0 then BOF
      else if (case rowCount of None \<Rightarrow> False | Some n \<Rightarrow> target \<ge> n) then EOF
      else Index target)"


text \<open>Some listener of the cursor cancels the event.\<close>

definition cancels :: "nat \<Rightarrow> 'v world \<Rightarrow> cursor_event \<Rightarrow> bool" where
  "cancels c w e =
     list_ex (\<lambda>l. fst l = event_type e \<and> \<not> snd l e) (listeners (cursors w c))"

text \<open>
  From the positioning test: a cursor with a listener that blocks discards, moved to row
  0; then with its name field edited.
\<close>

definition test_cursor_at_0 :: "test_value world" where
  "test_cursor_at_0 =
     snd (setPosition js_test test_depth 0
            (addEventListener 0 (snd (Cursor getTestDataSource)) BEFORE_DISCARD (\<lambda>e. False))
            (Index 0))"

definition test_cursor_dirty_at_0 :: "test_value world" where
  "test_cursor_dirty_at_0 = snd (setFieldValue 0 test_cursor_at_0 ''name'' TStr_whee)"

text \<open>The cursor at row 0, whose id is the number 1, with its id field set to \<open>'1.0'\<close>.\<close>

definition test_cursor_id_as_string :: "test_value world" where
  "test_cursor_id_as_string = snd (setFieldValue 0 test_cursor_at_0 ''id'' TStr_1_0)"

text \<open>What \<open>moveRelative\<close> does once its target is resolved to an integer.\<close>

definition moveRelative_to ::
  "'v javascript \<Rightarrow> nat \<Rightarrow> nat \<Rightarrow> 'v world \<Rightarrow> int \<Rightarrow> int \<Rightarrow> ('v, bool) result" where
  "moveRelative_to js depth c w numRowsToMove target =
     (let newPosition = clamp_target (getRowCount w) target in
      case maybeDiscard js depth c w (Some newPosition) of
        (Inl e, w1) \<Rightarrow> (Inl e, w1)
      | (Inr _, w1) \<Rightarrow>
          (case setPosition js depth c
                  (w1\<lparr>trace := trace w1 @ [CursorEvent c
                      (PlainEvent MOVE_FORWARD (Some numRowsToMove) newPosition)]\<rparr>)
                  newPosition of
             (Inl e, w3) \<Rightarrow> (Inl e, w3)
           | (Inr _, w3) \<Rightarrow> (Inr True, w3)))"

text \<open>
  New cursors at BOF, on the test datasource and on an empty one; the latter moved to NEW.
\<close>

definition test_cursor_at_BOF :: "test_value world" where
  "test_cursor_at_BOF = snd (Cursor getTestDataSource)"

definition empty_cursor_at_BOF :: "test_value world" where
  "empty_cursor_at_BOF = snd (Cursor (SimpleDatasource [\<lparr>name = ''id'', caption = ''ID''\<rparr>] []))"

definition empty_cursor_at_NEW :: "test_value world" where
  "empty_cursor_at_NEW = snd (setPosition js_test test_depth 0 empty_cursor_at_BOF NEW)"

text \<open>
  A cursor moved to row 2 of the test datasource, whose row 2 is then removed: the
  datasource tells no cursor of a removal, so the cursor stands past the end.
\<close>

definition test_cursor_past_end :: "test_value world" where
  "test_cursor_past_end =
     snd (remove (snd (setPosition js_test test_depth 0 test_cursor_at_BOF (Index 2))) 2)"

text \<open>
  The specification's dirtiness of a cursor's two records: some key is present on one
  side only, or on both with values that are not loosely equal.
\<close>

definition records_differ :: "'v javascript \<Rightarrow> 'v jsobject \<Rightarrow> 'v jsobject \<Rightarrow> bool" where
  "records_differ js newValues oldValues =
     list_ex (\<lambda>k. (owns newValues k \<and> \<not> owns oldValues k)
                 \<or> (owns oldValues k \<and> \<not> owns newValues k)
                 \<or> (owns newValues k \<and> owns oldValues k
                    \<and> loose_ne js (getProperty js oldValues k) (getProperty js newValues k)))
       (keys newValues @ keys oldValues)"

text \<open>
  Every value of the cursor's loaded record is loosely equal to itself (none is \<open>NaN\<close>),
  and its \<open>hasOwnProperty\<close> is the built-in method.
\<close>

definition loaded_equals_itself :: "'v javascript \<Rightarrow> nat \<Rightarrow> 'v world \<Rightarrow> bool" where
  "loaded_equals_itself js c w =
     (case currentRecordAsLoaded_f (cursors w c) of
        None \<Rightarrow> True
      | Some loaded \<Rightarrow>
          hasOwnProperty_is_builtin js (heap w loaded)
          \<and> list_all (\<lambda>k. \<not> loose_ne js (getProperty js (heap w loaded) k)
                                          (getProperty js (heap w loaded) k))
              (keys (heap w loaded)))"

text \<open>
  The cursor has no current record, or its current record holds the same properties as
  its loaded record (as an empty record, where there is no loaded record).
\<close>

definition records_agree :: "nat \<Rightarrow> 'v world \<Rightarrow> bool" where
  "records_agree c w =
     (case currentRecordValues_f (cursors w c) of
        None \<Rightarrow> True
      | Some values \<Rightarrow>
          heap w values = clone (deref w (currentRecordAsLoaded_f (cursors w c))))"

text \<open>From the record-creation test: a cursor at NEW whose name field was set to undefined.\<close>

definition test_cursor_new_undefined :: "test_value world" where
  "test_cursor_new_undefined =
     snd (setFieldValue 0 (snd (setPosition js_test test_depth 0 test_cursor_at_BOF NEW))
            ''name'' TUndefined)"

text \<open>
  Every cursor listening to the datasource that stands on an integer position stands
  below the row count.
\<close>

definition cursor_positions_in_range :: "'v world \<Rightarrow> bool" where
  "cursor_positions_in_range w =
     list_all (\<lambda>c. case position_f (cursors w c) of
                      Index q \<Rightarrow> q < int (length (data_f w))
                    | _ \<Rightarrow> True)
       [0..<cursorCount w]"

text \<open>The state in which \<open>save\<close> at NEW has added the record, reloaded and announced SAVE.\<close>

definition save_new_saved :: "nat \<Rightarrow> 'v world \<Rightarrow> 'v world" where
  "save_new_saved c w =
     w\<lparr>data_f := data_f w @ [clone (deref w (currentRecordValues_f (cursors w c)))],
       heap := (heap w)(nextRef w := [], Suc (nextRef w) := []),
       nextRef := Suc (Suc (nextRef w)),
       cursors := (cursors w)(c := (cursors w c)
          \<lparr>currentRecordValues_f := Some (nextRef w),
           currentRecordAsLoaded_f := Some (Suc (nextRef w))\<rparr>),
       trace := trace w @ [DatasourceEvent ROWS_INSERT [int (length (data_f w))],
                           CursorEvent c (RowEvent SAVE (Index (int (length (data_f w)))))]\<rparr>"

text \<open>
  From the record-creation test: a cursor that blocks discards, moved to NEW, with id and
  name set.
\<close>

definition test_cursor_new :: "test_value world" where
  "test_cursor_new =
     snd (setFieldValue 0
           (snd (setFieldValue 0
                  (snd (setPosition js_test test_depth 0
                         (addEventListener 0 (snd (Cursor getTestDataSource)) BEFORE_DISCARD
                            (\<lambda>e. False))
                         NEW))
                  ''id'' TStr_foo))
           ''name'' TStr_bar)"

text \<open>
  Two cursors on the test datasource. The second is moved to row 2, and row 2 is then
  removed, so it stands past the end; the first is moved to NEW and given an id and a
  name.
\<close>

definition new_beside_past_end :: "test_value world" where
  "new_beside_past_end =
     (let w1 = snd (Cursor getTestDataSource);
          w2 = snd (Cursor w1);
          w3 = snd (setPosition js_test test_depth 1 w2 (Index 2));
          w4 = snd (remove w3 2);
          w5 = snd (setPosition js_test test_depth 0 w4 NEW);
          w6 = snd (setFieldValue 0 w5 ''id'' TStr_foo)
      in snd (setFieldValue 0 w6 ''name'' TStr_bar))"

text \<open>The event \<open>save\<close> raises before it overwrites a record changed by someone else.\<close>

definition before_overwrite_event :: "position \<Rightarrow> position option \<Rightarrow> cursor_event" where
  "before_overwrite_event position opt_attemptedPosition =
     (case opt_attemptedPosition of
        Some attempted \<Rightarrow> MovementEvent BEFORE_OVERWRITE position (Some attempted)
      | None \<Rightarrow> RowEvent BEFORE_OVERWRITE position)"

text \<open>
  The two-cursor scenario of the test suite: \<open>c1\<close> (cursor 0) and \<open>c2\<close> (cursor 1) both at
  index 1; \<open>c1\<close> names the record Stuart and saves, \<open>c2\<close> has named it Jonathan. Then
  \<open>c2\<close> with a BEFORE_OVERWRITE handler that returns false, and with one that returns
  true.
\<close>

definition two_cursors_c1_saved :: "test_value world" where
  "two_cursors_c1_saved =
     (let w1 = snd (Cursor getTestDataSource);
          w2 = snd (Cursor w1);
          w3 = snd (setPosition js_test test_depth 0 w2 (Index 1));
          w4 = snd (setPosition js_test test_depth 1 w3 (Index 1));
          w5 = snd (setFieldValue 0 w4 ''name'' TStr_Stuart);
          w6 = snd (setFieldValue 1 w5 ''name'' TStr_Jonathan)
      in snd (save js_test 0 w6 False False None))"

definition c2_refuses_overwrite :: "test_value world" where
  "c2_refuses_overwrite = addEventListener 1 two_cursors_c1_saved BEFORE_OVERWRITE (\<lambda>e. False)"

definition c2_allows_overwrite :: "test_value world" where
  "c2_allows_overwrite = addEventListener 1 two_cursors_c1_saved BEFORE_OVERWRITE (\<lambda>e. True)"

text \<open>The state in which \<open>discard\<close> has put a clone of the loaded record in place of the
  current one and announced DISCARD.\<close>

definition discard_reverted :: "nat \<Rightarrow> 'v world \<Rightarrow> position option \<Rightarrow> 'v world" where
  "discard_reverted c w opt_newPosition =
     w\<lparr>heap := (heap w)(nextRef w := clone (deref w (currentRecordAsLoaded_f (cursors w c)))),
       nextRef := Suc (nextRef w),
       cursors := (cursors w)(c := (cursors w c)\<lparr>currentRecordValues_f := Some (nextRef w)\<rparr>),
       trace := trace w @ [CursorEvent c
                  (MovementEvent DISCARD (position_f (cursors w c)) opt_newPosition)]\<rparr>"


text \<open>
  From the event test: a cursor moved to row 2 (Peter) whose name field was edited to
  Stuart.
\<close>

definition test_cursor_dirty_at_2 :: "test_value world" where
  "test_cursor_dirty_at_2 =
     snd (setFieldValue 0
            (snd (setPosition js_test test_depth 0 (snd (Cursor getTestDataSource)) (Index 2)))
            ''name'' TStr_Stuart)"

text \<open>
  A datasource whose one row has \<open>NaN\<close> for its id, and a cursor moved to that row.
\<close>

definition nan_cursor_at_0 :: "test_value world" where
  "nan_cursor_at_0 =
     snd (setPosition js_test test_depth 0
            (snd (Cursor (SimpleDatasource [\<lparr>name = ''id'', caption = ''ID''\<rparr>]
                            [[(''id'', TNaN)]])))
            (Index 0))"

text \<open>
  A datasource with a column named hasOwnProperty, whose one row has a string in it, and
  a cursor moved to that row.
\<close>

definition shadowing_datasource :: "test_value world" where
  "shadowing_datasource =
     SimpleDatasource [\<lparr>name = ''id'', caption = ''ID''\<rparr>,
                       \<lparr>name = ''hasOwnProperty'', caption = ''Has own property''\<rparr>]
       [[(''id'', TNum_1), (''hasOwnProperty'', TStr_John)]]"

definition shadowing_cursor_at_0 :: "test_value world" where
  "shadowing_cursor_at_0 =
     snd (setPosition js_test test_depth 0 (snd (Cursor shadowing_datasource)) (Index 0))"

section \<open>atomicReplace is a compare-and-swap\<close>

lemma hasOwnProperty_builtin:
  "hasOwnProperty_is_builtin js obj \<Longrightarrow> hasOwnProperty js obj k = Inr (owns obj k)"
  by (simp add: hasOwnProperty_def)

lemma hasOwnProperty_error: "hasOwnProperty js obj k = Inl e \<Longrightarrow> e = TypeError"
  by (simp add: hasOwnProperty_def split: if_splits)

lemma isDifferent_loop_iff:
  assumes "hasOwnProperty_is_builtin js obj"
  shows "isDifferent_loop js ks obj e a =
           Inr (\<exists>k \<in> set ks. owns obj k \<and> loose_ne js (getProperty js e k) (getProperty js a k))"
  by (induction ks) (auto simp: hasOwnProperty_builtin [OF assms])

lemma isDifferent_key_diff:
  assumes "hasOwnProperty_is_builtin js e" and "hasOwnProperty_is_builtin js a"
  shows "isDifferent js e a = Inr (key_diff js e a \<noteq> {})"
  by (auto simp: isDifferent_def isDifferent_loop_iff assms key_diff_def owns_def)

lemma isDifferent_loop_error: "isDifferent_loop js ks obj e a = Inl x \<Longrightarrow> x = TypeError"
  by (induction ks) (auto split: sum.splits if_splits dest: hasOwnProperty_error)

lemma isDifferent_error: "isDifferent js e a = Inl x \<Longrightarrow> x = TypeError"
  by (auto simp: isDifferent_def split: sum.splits if_splits dest: isDifferent_loop_error)

lemma get_in_range:
  assumes "0 \<le> rowIndex" and "rowIndex < int (length (data_f w))"
  shows "assertValidRow w rowIndex None = Inr ()"
    and "get w rowIndex = Inr (data_f w ! nat rowIndex)"
  using assms by (simp_all add: assertValidRow_def get_def)

lemma replace_in_range:
  assumes "0 \<le> i" and "i < int (length (data_f w))"
  shows "replace w i newRecord =
           (Inr (), w\<lparr>data_f := (data_f w)[nat i := clone newRecord],
                      trace := trace w @ [DatasourceEvent ROWS_UPDATE [i]]\<rparr>)"
  using assms by (simp add: replace_def assertValidRow_def)

lemma atomicReplace_key_diff:
  assumes "0 \<le> rowIndex" and "rowIndex < int (length (data_f w))"
    and "hasOwnProperty_is_builtin js expected"
    and "hasOwnProperty_is_builtin js (data_f w ! nat rowIndex)"
  shows "atomicReplace js w rowIndex (Some expected) (Some next) =
           (if key_diff js expected (data_f w ! nat rowIndex) \<noteq> {}
            then (Inl (ConcurrentModification (data_f w ! nat rowIndex)), w)
            else replace w rowIndex (Some next))"
  unfolding atomicReplace_def
  by (simp add: get_in_range [OF assms(1,2)] isDifferent_key_diff [OF assms(3,4)])




section \<open>Positions and movement\<close>

lemma dispatchEvent_snd [simp]:
  "snd (dispatchEvent c w e) = w\<lparr>trace := trace w @ [CursorEvent c e]\<rparr>"
  by (simp add: dispatchEvent_def)

lemma isDirty_trace [simp]: "isDirty js c (w\<lparr>trace := t\<rparr>) = isDirty js c w"
  by (simp add: isDirty_def Let_def split: option.splits)

lemma getRowCount_trace [simp]: "getRowCount (w\<lparr>trace := t\<rparr>) = getRowCount w"
  by (simp add: getRowCount_def getCount_def)

lemma assertValidPosition_trace [simp]:
  "assertValidPosition (w\<lparr>trace := t\<rparr>) p = assertValidPosition w p"
  by (simp add: assertValidPosition_def)

lemma reloadRecord_position:
  "position_f (cursors (snd (reloadRecord js c w)) c) = position_f (cursors w c)"
  by (simp add: reloadRecord_def set_records_def new_object_def Let_def
      split: position.splits sum.splits prod.splits)

lemma moveInternal_position:
  "position_f (cursors (snd (moveInternal js c w p)) c) = p"
proof -
  obtain r w2 where rr:
    "reloadRecord js c (w\<lparr>cursors := (cursors w)(c := (cursors w c)\<lparr>position_f := p\<rparr>)\<rparr>) = (r, w2)"
    by fastforce
  have "position_f (cursors w2 c) = p"
    using reloadRecord_position [of js c "w\<lparr>cursors := (cursors w)(c := (cursors w c)\<lparr>position_f := p\<rparr>)\<rparr>"] rr
    by simp
  then show ?thesis
    by (cases r) (simp_all add: moveInternal_def Let_def rr)
qed

lemma moveInternal_position':
  "moveInternal js c w p = (r, w') \<Longrightarrow> position_f (cursors w' c) = p"
  using moveInternal_position [of js c w p] by simp

lemma setPosition_position:
  assumes "setPosition js depth c w p = (Inr u, w')"
  shows "position_f (cursors w' c) = p"
  using assms
  by (auto simp: setPosition.simps split: sum.splits prod.splits if_splits
      dest: moveInternal_position')

lemma maybeDiscard_clean:
  "isDirty js c w = Inr False \<Longrightarrow> maybeDiscard js depth c w p = (Inr True, w)"
  by (simp add: maybeDiscard.simps)

lemma setPosition_clean:
  assumes "isDirty js c w = Inr False"
  shows "setPosition js depth c w p =
           (case assertValidPosition w p of
              Inl e \<Rightarrow> (Inl e, w)
            | Inr _ \<Rightarrow> if p \<noteq> position_f (cursors w c) then moveInternal js c w p
                       else (Inr (), w))"
  by (simp add: setPosition.simps maybeDiscard_clean [OF assms] split: sum.splits)

text \<open>
  C9. On a datasource whose row count is known to be zero, \<open>moveLast\<close> announces
  MOVE_LAST with the target -1 and then throws IllegalMove from the position check of
  \<open>setPosition\<close>; nothing else changes, so the cursor stays where it was and is not
  moved to BOF.
\<close>

theorem moveLast_empty:
  assumes "getRowCount w = Some 0"
  shows "moveLast js depth c w =
           (Inl IllegalMove,
            w\<lparr>trace := trace w @ [CursorEvent c (PlainEvent MOVE_LAST None (Index (- 1)))]\<rparr>)
         \<and> position_f (cursors (snd (moveLast js depth c w)) c) = position_f (cursors w c)"
  using assms
  by (simp add: moveLast_def setPosition.simps assertValidPosition_def Let_def)

theorem moveLast_empty_witness:
  "getRowCount empty_cursor_at_NEW = Some 0
   \<and> position_f (cursors empty_cursor_at_NEW 0) = NEW
   \<and> fst (moveLast js_test test_depth 0 empty_cursor_at_NEW) = Inl IllegalMove
   \<and> position_f (cursors (snd (moveLast js_test test_depth 0 empty_cursor_at_NEW)) 0) = NEW"
proof -
  have h: "getRowCount empty_cursor_at_NEW = Some 0" by code_simp
  have p: "position_f (cursors empty_cursor_at_NEW 0) = NEW" by code_simp
  show ?thesis
    using h p moveLast_empty [OF h, of js_test test_depth 0] by simp
qed

lemma dispatchEvent_fst: "fst (dispatchEvent c w e) = (\<not> cancels c w e)"
  by (auto simp: dispatchEvent_def cancels_def list_all_iff list_ex_iff)

lemma dispatchEvent_eq:
  "dispatchEvent c w e = (\<not> cancels c w e, w\<lparr>trace := trace w @ [CursorEvent c e]\<rparr>)"
  by (simp add: prod_eq_iff dispatchEvent_fst)

lemma moveRelative_adjust_valid:
  assumes "assertValidPosition w p = Inr True"
  shows "moveRelative_adjust w p = p"
proof (cases p)
  case (Index i)
  with assms have "0 \<le> i \<and> i < int (length (data_f w))"
    by (simp add: assertValidPosition_def getRowCount_def getCount_def split: if_splits)
  with Index show ?thesis
    by (simp add: moveRelative_adjust_def getRowCount_def getCount_def)
qed (simp_all add: moveRelative_adjust_def)

lemma moveRelative_zero_target:
  assumes "assertValidPosition w (position_f (cursors w c)) = Inr True"
  shows "moveRelative js depth c w 0 =
           (case maybeDiscard js depth c w (Some (position_f (cursors w c))) of
              (Inl e, w1) \<Rightarrow> (Inl e, w1)
            | (Inr _, w1) \<Rightarrow>
                (case setPosition js depth c
                        (w1\<lparr>trace := trace w1 @ [CursorEvent c
                            (PlainEvent MOVE_FORWARD (Some 0) (position_f (cursors w c)))]\<rparr>)
                        (position_f (cursors w c)) of
                   (Inl e, w3) \<Rightarrow> (Inl e, w3)
                 | (Inr _, w3) \<Rightarrow> (Inr True, w3)))"
proof -
  have "moveRelative_resolve c w 0 = Inr (position_f (cursors w c))"
    by (simp add: moveRelative_resolve_def)
  then show ?thesis
    by (simp add: moveRelative_def Let_def moveRelative_adjust_valid [OF assms] assms
        cong: prod.case_cong sum.case_cong)
qed

text \<open>
  C6, for a cursor whose position is valid. \<open>moveRelative(0)\<close> keeps the position as its
  target and still runs the discard protocol. If the cursor is dirty, on a current
  record, and a listener cancels BEFORE_DISCARD, it throws DiscardBlocked and the state is
  untouched (only the notification was dispatched). If the cursor is not dirty it returns
  true, with the position unchanged (only MOVE_FORWARD was dispatched).
\<close>

theorem moveRelative_zero:
  assumes "assertValidPosition w (position_f (cursors w c)) = Inr True"
  shows "(isDirty js c w = Inr True \<and> assertCurrentRecord c w = Inr ()
           \<and> cancels c w (MovementEvent BEFORE_DISCARD (position_f (cursors w c))
                            (Some (position_f (cursors w c))))
          \<longrightarrow> moveRelative js depth c w 0 =
                (Inl DiscardBlocked,
                 w\<lparr>trace := trace w @ [CursorEvent c
                     (MovementEvent BEFORE_DISCARD (position_f (cursors w c))
                        (Some (position_f (cursors w c))))]\<rparr>))
       \<and> (isDirty js c w = Inr False
          \<longrightarrow> moveRelative js depth c w 0 =
                (Inr True,
                 w\<lparr>trace := trace w @ [CursorEvent c
                     (PlainEvent MOVE_FORWARD (Some 0) (position_f (cursors w c)))]\<rparr>))"
proof (intro conjI impI)
  assume a: "isDirty js c w = Inr True \<and> assertCurrentRecord c w = Inr ()
             \<and> cancels c w (MovementEvent BEFORE_DISCARD (position_f (cursors w c))
                              (Some (position_f (cursors w c))))"
  then have "maybeDiscard js depth c w (Some (position_f (cursors w c))) =
          (Inl DiscardBlocked,
           w\<lparr>trace := trace w @ [CursorEvent c
               (MovementEvent BEFORE_DISCARD (position_f (cursors w c))
                  (Some (position_f (cursors w c))))]\<rparr>)"
    by (simp add: maybeDiscard.simps dispatchEvent_eq getPosition_def)
  then show "moveRelative js depth c w 0 =
               (Inl DiscardBlocked,
                w\<lparr>trace := trace w @ [CursorEvent c
                    (MovementEvent BEFORE_DISCARD (position_f (cursors w c))
                       (Some (position_f (cursors w c))))]\<rparr>)"
    by (simp add: moveRelative_zero_target [OF assms])
next
  assume clean: "isDirty js c w = Inr False"
  show "moveRelative js depth c w 0 =
          (Inr True,
           w\<lparr>trace := trace w @ [CursorEvent c
               (PlainEvent MOVE_FORWARD (Some 0) (position_f (cursors w c)))]\<rparr>)"
    by (simp add: moveRelative_zero_target [OF assms] maybeDiscard_clean [OF clean]
        setPosition_clean clean assms)
qed

theorem moveRelative_zero_witness:
  "assertValidPosition test_cursor_dirty_at_0 (position_f (cursors test_cursor_dirty_at_0 0))
     = Inr True
   \<and> isDirty js_test 0 test_cursor_dirty_at_0 = Inr True
   \<and> assertCurrentRecord 0 test_cursor_dirty_at_0 = Inr ()
   \<and> cancels 0 test_cursor_dirty_at_0 (MovementEvent BEFORE_DISCARD (Index 0) (Some (Index 0)))
   \<and> fst (moveRelative js_test test_depth 0 test_cursor_dirty_at_0 0) = Inl DiscardBlocked
   \<and> cursors (snd (moveRelative js_test test_depth 0 test_cursor_dirty_at_0 0))
       = cursors test_cursor_dirty_at_0
   \<and> data_f (snd (moveRelative js_test test_depth 0 test_cursor_dirty_at_0 0))
       = data_f test_cursor_dirty_at_0
   \<and> heap (snd (moveRelative js_test test_depth 0 test_cursor_dirty_at_0 0))
       = heap test_cursor_dirty_at_0
   \<and> assertValidPosition test_cursor_at_0 (position_f (cursors test_cursor_at_0 0)) = Inr True
   \<and> isDirty js_test 0 test_cursor_at_0 = Inr False
   \<and> fst (moveRelative js_test test_depth 0 test_cursor_at_0 0) = Inr True
   \<and> position_f (cursors (snd (moveRelative js_test test_depth 0 test_cursor_at_0 0)) 0) = Index 0"
proof -
  have d1: "assertValidPosition test_cursor_dirty_at_0
              (position_f (cursors test_cursor_dirty_at_0 0)) = Inr True" by code_simp
  have d2: "isDirty js_test 0 test_cursor_dirty_at_0 = Inr True" by code_simp
  have d3: "position_f (cursors test_cursor_dirty_at_0 0) = Index 0" by code_simp
  have d4: "cancels 0 test_cursor_dirty_at_0
              (MovementEvent BEFORE_DISCARD (Index 0) (Some (Index 0)))" by code_simp
  have d5: "assertCurrentRecord 0 test_cursor_dirty_at_0 = Inr ()" by code_simp
  have c1: "assertValidPosition test_cursor_at_0 (position_f (cursors test_cursor_at_0 0))
              = Inr True" by code_simp
  have c2: "isDirty js_test 0 test_cursor_at_0 = Inr False" by code_simp
  have c3: "position_f (cursors test_cursor_at_0 0) = Index 0" by code_simp
  show ?thesis
    using moveRelative_zero [OF d1, of js_test test_depth]
      moveRelative_zero [OF c1, of js_test test_depth] d1 d2 d4 d5 c1 c2
    by (simp add: d3 c3)
qed

text \<open>
  C6 fails for a cursor that stands past the end. The cursor was moved to row 2 and
  row 2 was then removed from the datasource; it is not dirty. \<open>moveRelative(0)\<close>
  returns true, and the cursor has moved from index 2 to EOF.
\<close>

theorem moveRelative_zero_past_end_counterexample:
  "position_f (cursors test_cursor_past_end 0) = Index 2
   \<and> getRowCount test_cursor_past_end = Some 2
   \<and> isDirty js_test 0 test_cursor_past_end = Inr False
   \<and> fst (moveRelative js_test test_depth 0 test_cursor_past_end 0) = Inr True
   \<and> position_f (cursors (snd (moveRelative js_test test_depth 0 test_cursor_past_end 0)) 0)
       = EOF"
  by code_simp

lemma clamp_target_valid:
  "assertValidPosition w (clamp_target (getRowCount w) t) = Inr True"
  by (simp add: clamp_target_def assertValidPosition_def getRowCount_def getCount_def)

lemma reloadRecord_in_range:
  assumes "assertValidPosition w (position_f (cursors w c)) = Inr True"
  shows "fst (reloadRecord js c w) = Inr ()"
proof (cases "position_f (cursors w c)")
  case (Index i)
  with assms have "0 \<le> i \<and> i < int (length (data_f w))"
    by (simp add: assertValidPosition_def getRowCount_def getCount_def split: if_splits)
  with Index show ?thesis
    by (simp add: reloadRecord_def new_object_def set_records_def Let_def get_def
        assertValidRow_def)
qed (simp_all add: reloadRecord_def new_object_def Let_def)

lemma moveInternal_in_range:
  assumes "assertValidPosition w p = Inr True"
  shows "fst (moveInternal js c w p) = Inr ()"
proof -
  let ?w1 = "w\<lparr>cursors := (cursors w)(c := (cursors w c)\<lparr>position_f := p\<rparr>)\<rparr>"
  have "assertValidPosition ?w1 (position_f (cursors ?w1 c)) = Inr True"
    using assms by (simp add: assertValidPosition_def getRowCount_def getCount_def)
  then have "fst (reloadRecord js c ?w1) = Inr ()"
    by (rule reloadRecord_in_range)
  then show ?thesis
    by (cases "reloadRecord js c ?w1") (simp add: moveInternal_def Let_def)
qed

lemma setPosition_clean_in_range:
  assumes "isDirty js c w = Inr False" and "assertValidPosition w p = Inr True"
  shows "fst (setPosition js depth c w p) = Inr ()"
  using assms moveInternal_in_range [OF assms(2), of js c]
  by (simp add: setPosition_clean)

lemma moveRelative_adjust_Index:
  "moveRelative_adjust w (Index t) = clamp_target (getRowCount w) t"
  by (simp add: moveRelative_adjust_def clamp_target_def)

lemma moveRelative_resolved:
  assumes "moveRelative_resolve c w delta = Inr (Index t)"
  shows "moveRelative js depth c w delta = moveRelative_to js depth c w delta t"
  using assms clamp_target_valid [of w t]
  by (simp add: moveRelative_def moveRelative_to_def Let_def moveRelative_adjust_Index
      cong: prod.case_cong sum.case_cong)

lemma moveRelative_from_BOF:
  assumes "position_f (cursors w c) = BOF" and "0 < delta"
  shows "moveRelative js depth c w delta = moveRelative_to js depth c w delta (delta - 1)"
  using assms by (intro moveRelative_resolved) (simp add: moveRelative_resolve_def Let_def)

lemma moveRelative_from_Index:
  assumes "position_f (cursors w c) = Index i"
  shows "moveRelative js depth c w delta = moveRelative_to js depth c w delta (i + delta)"
  using assms by (intro moveRelative_resolved) (simp add: moveRelative_resolve_def Let_def)

lemma moveRelative_to_position:
  assumes "moveRelative_to js depth c w delta t = (Inr b, w')"
  shows "position_f (cursors w' c) = clamp_target (getRowCount w) t"
  using assms
  by (auto simp: moveRelative_to_def Let_def split: prod.splits sum.splits
      dest: setPosition_position)

lemma moveRelative_to_clean:
  assumes "isDirty js c w = Inr False"
  shows "fst (moveRelative_to js depth c w delta t) = Inr True"
proof -
  let ?p = "clamp_target (getRowCount w) t"
  let ?w2 = "w\<lparr>trace := trace w @ [CursorEvent c (PlainEvent MOVE_FORWARD (Some delta) ?p)]\<rparr>"
  have "fst (setPosition js depth c ?w2 ?p) = Inr ()"
    using assms clamp_target_valid [of w t]
    by (intro setPosition_clean_in_range) simp_all
  then show ?thesis
    by (cases "setPosition js depth c ?w2 ?p")
       (simp add: moveRelative_to_def Let_def maybeDiscard_clean [OF assms])
qed

text \<open>
  C5. \<open>moveRelative\<close> resolves its target as specified. From BOF a negative delta throws
  IllegalMove and changes nothing; from BOF with a positive delta the target is delta - 1,
  from an integer index it is index + delta, and whenever the call returns the cursor
  rests on that target clamped to BOF below 0 and to EOF from the row count on. On a
  cursor that is not dirty these moves do return, with true.
\<close>

theorem moveRelative_target:
  "(position_f (cursors w c) = BOF \<and> delta < 0
      \<longrightarrow> moveRelative js depth c w delta = (Inl IllegalMove, w))
   \<and> (position_f (cursors w c) = BOF \<and> 0 < delta
       \<and> moveRelative js depth c w delta = (Inr b, w')
      \<longrightarrow> position_f (cursors w' c) = clamp_target (getRowCount w) (delta - 1))
   \<and> (position_f (cursors w c) = Index i \<and> moveRelative js depth c w delta = (Inr b, w')
      \<longrightarrow> position_f (cursors w' c) = clamp_target (getRowCount w) (i + delta))
   \<and> (isDirty js c w = Inr False
       \<and> (position_f (cursors w c) = BOF \<and> 0 < delta \<or> position_f (cursors w c) = Index i)
      \<longrightarrow> fst (moveRelative js depth c w delta) = Inr True)"
proof (intro conjI impI)
  assume "position_f (cursors w c) = BOF \<and> delta < 0"
  then show "moveRelative js depth c w delta = (Inl IllegalMove, w)"
    by (simp add: moveRelative_def moveRelative_resolve_def Let_def)
next
  assume "position_f (cursors w c) = BOF \<and> 0 < delta
          \<and> moveRelative js depth c w delta = (Inr b, w')"
  then show "position_f (cursors w' c) = clamp_target (getRowCount w) (delta - 1)"
    using moveRelative_from_BOF [of w c delta js depth]
      moveRelative_to_position [of js depth c w delta "delta - 1" b w']
    by simp
next
  assume "position_f (cursors w c) = Index i \<and> moveRelative js depth c w delta = (Inr b, w')"
  then show "position_f (cursors w' c) = clamp_target (getRowCount w) (i + delta)"
    using moveRelative_from_Index [of w c i js depth delta]
      moveRelative_to_position [of js depth c w delta "i + delta" b w']
    by simp
next
  assume a: "isDirty js c w = Inr False
       \<and> (position_f (cursors w c) = BOF \<and> 0 < delta \<or> position_f (cursors w c) = Index i)"
  then have clean: "isDirty js c w = Inr False" by simp
  from a show "fst (moveRelative js depth c w delta) = Inr True"
    using moveRelative_from_BOF [of w c delta js depth]
      moveRelative_from_Index [of w c i js depth delta]
      moveRelative_to_clean [OF clean]
    by auto
qed

theorem moveRelative_target_witness:
  "position_f (cursors test_cursor_at_BOF 0) = BOF
   \<and> moveRelative js_test test_depth 0 test_cursor_at_BOF (- 1)
       = (Inl IllegalMove, test_cursor_at_BOF)
   \<and> fst (moveRelative js_test test_depth 0 test_cursor_at_BOF 1) = Inr True
   \<and> position_f (cursors (snd (moveRelative js_test test_depth 0 test_cursor_at_BOF 1)) 0)
       = Index 0
   \<and> position_f (cursors empty_cursor_at_BOF 0) = BOF
   \<and> fst (moveRelative js_test test_depth 0 empty_cursor_at_BOF 1) = Inr True
   \<and> position_f (cursors (snd (moveRelative js_test test_depth 0 empty_cursor_at_BOF 1)) 0)
       = EOF
   \<and> position_f (cursors test_cursor_at_0 0) = Index 0
   \<and> fst (moveRelative js_test test_depth 0 test_cursor_at_0 2) = Inr True
   \<and> position_f (cursors (snd (moveRelative js_test test_depth 0 test_cursor_at_0 2)) 0)
       = Index 2
   \<and> position_f (cursors (snd (moveRelative js_test test_depth 0 test_cursor_at_0 4)) 0) = EOF
   \<and> position_f (cursors (snd (moveRelative js_test test_depth 0 test_cursor_at_0 (- 3))) 0)
       = BOF"
proof -
  have a0: "position_f (cursors test_cursor_at_BOF 0) = BOF" by code_simp
  have a1: "isDirty js_test 0 test_cursor_at_BOF = Inr False" by code_simp
  have a2: "clamp_target (getRowCount test_cursor_at_BOF) (1 - 1) = Index 0" by code_simp
  have e0: "position_f (cursors empty_cursor_at_BOF 0) = BOF" by code_simp
  have e1: "isDirty js_test 0 empty_cursor_at_BOF = Inr False" by code_simp
  have e2: "clamp_target (getRowCount empty_cursor_at_BOF) (1 - 1) = EOF" by code_simp
  have i0: "position_f (cursors test_cursor_at_0 0) = Index 0" by code_simp
  have i1: "isDirty js_test 0 test_cursor_at_0 = Inr False" by code_simp
  have i2: "clamp_target (getRowCount test_cursor_at_0) (0 + 2) = Index 2" by code_simp
  have i3: "clamp_target (getRowCount test_cursor_at_0) (0 + 4) = EOF" by code_simp
  have i4: "clamp_target (getRowCount test_cursor_at_0) (0 + - 3) = BOF" by code_simp
  have neg: "moveRelative js_test test_depth 0 test_cursor_at_BOF (- 1)
             = (Inl IllegalMove, test_cursor_at_BOF)"
    using moveRelative_target [of test_cursor_at_BOF 0 "- 1" js_test test_depth] a0 by simp
  have a3: "fst (moveRelative js_test test_depth 0 test_cursor_at_BOF 1) = Inr True"
    using moveRelative_target [of test_cursor_at_BOF 0 1 js_test test_depth] a0 a1 by simp
  have a4: "position_f (cursors (snd (moveRelative js_test test_depth 0 test_cursor_at_BOF 1)) 0)
            = Index 0"
    using moveRelative_target [of test_cursor_at_BOF 0 1 js_test test_depth True
        "snd (moveRelative js_test test_depth 0 test_cursor_at_BOF 1)"] a0 a2 a3
    by (simp add: prod_eq_iff)
  have e3: "fst (moveRelative js_test test_depth 0 empty_cursor_at_BOF 1) = Inr True"
    using moveRelative_target [of empty_cursor_at_BOF 0 1 js_test test_depth] e0 e1 by simp
  have e4: "position_f (cursors (snd (moveRelative js_test test_depth 0 empty_cursor_at_BOF 1)) 0)
            = EOF"
    using moveRelative_target [of empty_cursor_at_BOF 0 1 js_test test_depth True
        "snd (moveRelative js_test test_depth 0 empty_cursor_at_BOF 1)"] e0 e2 e3
    by (simp add: prod_eq_iff)
  have i5: "fst (moveRelative js_test test_depth 0 test_cursor_at_0 d) = Inr True" for d
    using moveRelative_target [of test_cursor_at_0 0 d js_test test_depth _ _ 0] i0 i1 by simp
  have i6: "position_f (cursors (snd (moveRelative js_test test_depth 0 test_cursor_at_0 d)) 0)
            = clamp_target (getRowCount test_cursor_at_0) (0 + d)" for d
    using moveRelative_target [of test_cursor_at_0 0 d js_test test_depth True
        "snd (moveRelative js_test test_depth 0 test_cursor_at_0 d)" 0] i0 i5 [of d]
    by (simp add: prod_eq_iff)
  show ?thesis
    using a0 neg a3 a4 e0 e3 e4 i0 i5 [of 2] i6 [of 2] i6 [of 4] i6 [of "- 3"] i2 i3 i4
    by simp
qed

section \<open>Dirty tracking\<close>

lemma isDirty_loop1_iff:
  assumes "hasOwnProperty_is_builtin js n" and "hasOwnProperty_is_builtin js ol"
  shows "isDirty_loop1 js ps n ol =
     Inr (\<exists>p \<in> set ps. owns n p
            \<and> (\<not> owns ol p \<or> loose_ne js (getProperty js ol p) (getProperty js n p)))"
  by (induction ps) (auto simp: hasOwnProperty_builtin assms)

lemma isDirty_loop2_iff:
  assumes "hasOwnProperty_is_builtin js n" and "hasOwnProperty_is_builtin js ol"
  shows "isDirty_loop2 js ps n ol = Inr (\<exists>p \<in> set ps. owns ol p \<and> \<not> owns n p)"
  by (induction ps) (auto simp: hasOwnProperty_builtin assms)

lemma isDirty_records:
  assumes "currentRecordValues_f (cursors w c) = Some v"
    and "currentRecordAsLoaded_f (cursors w c) = Some l"
    and "hasOwnProperty_is_builtin js (heap w v)" and "hasOwnProperty_is_builtin js (heap w l)"
  shows "isDirty js c w = Inr (records_differ js (heap w v) (heap w l))"
  using assms(1,2)
  by (auto simp: isDirty_def Let_def isDirty_loop1_iff [OF assms(3,4)]
      isDirty_loop2_iff [OF assms(3,4)] records_differ_def list_ex_iff owns_def)

lemma records_differ_same:
  assumes "list_all (\<lambda>k. \<not> loose_ne js (getProperty js obj k) (getProperty js obj k)) (keys obj)"
  shows "\<not> records_differ js obj obj"
  using assms by (auto simp: records_differ_def list_ex_iff list_all_iff)

lemma records_agree_trace [simp]: "records_agree c (w\<lparr>trace := t\<rparr>) = records_agree c w"
  by (simp add: records_agree_def deref_def split: option.splits)

lemma loaded_equals_itself_trace [simp]:
  "loaded_equals_itself js c (w\<lparr>trace := t\<rparr>) = loaded_equals_itself js c w"
  by (simp add: loaded_equals_itself_def split: option.splits)

lemma records_agree_clean:
  assumes "records_agree c w" and "loaded_equals_itself js c w"
  shows "isDirty js c w = Inr False"
proof (cases "currentRecordValues_f (cursors w c)")
  case None
  then show ?thesis by (simp add: isDirty_def)
next
  case (Some v)
  show ?thesis
  proof (cases "currentRecordAsLoaded_f (cursors w c)")
    case None
    with Some assms(1) show ?thesis
      by (simp add: isDirty_def records_agree_def deref_def)
  next
    case l: (Some l)
    from assms(1) Some l have same: "heap w v = heap w l"
      by (simp add: records_agree_def deref_def)
    from assms(2) l have b: "hasOwnProperty_is_builtin js (heap w l)"
      and r: "list_all (\<lambda>k. \<not> loose_ne js (getProperty js (heap w l) k)
                                  (getProperty js (heap w l) k)) (keys (heap w l))"
      by (simp_all add: loaded_equals_itself_def)
    show ?thesis
      using isDirty_records [OF Some l] b records_differ_same [OF r] by (simp add: same)
  qed
qed

lemma reloadRecord_loop_same:
  assumes "v \<noteq> l" and "h v = h l"
  shows "reloadRecord_loop js cols record v l h v = reloadRecord_loop js cols record v l h l"
  using assms by (induction cols arbitrary: h) (simp_all add: Let_def)

lemma reloadRecord_agree:
  assumes "reloadRecord js c w = (Inr u, w')"
  shows "records_agree c w'"
proof (cases "position_f (cursors w c)")
  case BOF
  with assms show ?thesis
    by (auto simp: reloadRecord_def set_records_def records_agree_def)
next
  case EOF
  with assms show ?thesis
    by (auto simp: reloadRecord_def set_records_def records_agree_def)
next
  case NEW
  with assms show ?thesis
    by (auto simp: reloadRecord_def set_records_def new_object_def records_agree_def deref_def
        Let_def)
next
  case (Index i)
  with assms have
    v: "currentRecordValues_f (cursors w' c) = Some (nextRef w)" and
    l: "currentRecordAsLoaded_f (cursors w' c) = Some (Suc (nextRef w))" and
    "\<exists>record. heap w' = reloadRecord_loop js (getColumns w) record (nextRef w) (Suc (nextRef w))
                 ((heap w)(nextRef w := [], Suc (nextRef w) := []))"
    by (auto simp: reloadRecord_def set_records_def new_object_def Let_def getColumns_def
        split: sum.splits)
  then obtain row where
    h: "heap w' = reloadRecord_loop js (getColumns w) row (nextRef w) (Suc (nextRef w))
                 ((heap w)(nextRef w := [], Suc (nextRef w) := []))"
    by blast
  have "heap w' (nextRef w) = heap w' (Suc (nextRef w))"
    unfolding h by (rule reloadRecord_loop_same) simp_all
  then show ?thesis
    by (simp add: records_agree_def v l deref_def)
qed

lemma moveInternal_agree:
  assumes "moveInternal js c w p = (Inr u, w')"
  shows "records_agree c w'"
  using assms
  by (auto simp: moveInternal_def Let_def split: prod.splits sum.splits
      dest: reloadRecord_agree)

lemma getLoadedValues_current:
  assumes "assertCurrentRecord c w = Inr ()"
  shows "getLoadedValues c w =
           (Inr (nextRef w),
            w\<lparr>heap := (heap w)(nextRef w :=
                       clone (deref w (currentRecordAsLoaded_f (cursors w c)))),
              nextRef := Suc (nextRef w)\<rparr>)"
  using assms by (simp add: getLoadedValues_def new_object_def)

lemma discard_dirty_eq:
  assumes "assertCurrentRecord c w = Inr ()" and "isDirty js c w = Inr True"
  shows "discard js depth c w p =
           (case (if position_f (cursors w c) = NEW
                  then (case depth of
                          0 \<Rightarrow> (Inl RangeError, discard_reverted c w p)
                        | Suc deeper \<Rightarrow>
                            setPosition js deeper c (discard_reverted c w p)
                              (Index ((case getRowCount w of None \<Rightarrow> 0 | Some n \<Rightarrow> n) - 1)))
                  else (Inr (), discard_reverted c w p)) of
              (Inl e, w4) \<Rightarrow> (Inl e, w4)
            | (Inr _, w4) \<Rightarrow>
                (Inr (), snd (dispatchEvent c w4 (RowEvent MODIFIED (getPosition c w4)))))"
  by (subst discard.simps)
     (simp add: assms getLoadedValues_current Let_def getPosition_def discard_reverted_def
        getRowCount_def getCount_def split: nat.splits)

lemma discard_reverted_agree: "records_agree c (discard_reverted c w p)"
  by (cases "currentRecordAsLoaded_f (cursors w c)")
     (simp_all add: records_agree_def discard_reverted_def deref_def)

lemma maybeDiscard_settled:
  assumes "\<And>w p u w'. discard js depth c w p = (Inr u, w')
             \<Longrightarrow> isDirty js c w' = Inr False \<or> records_agree c w'"
    and "maybeDiscard js depth c w p = (Inr b, w')"
  shows "isDirty js c w' = Inr False \<or> records_agree c w'"
  using assms(2)
  by (subst (asm) maybeDiscard.simps)
     (auto simp: Let_def split: sum.splits if_splits prod.splits dest: assms(1))

lemma setPosition_settled:
  assumes "\<And>w p u w'. discard js depth c w p = (Inr u, w')
             \<Longrightarrow> isDirty js c w' = Inr False \<or> records_agree c w'"
    and "setPosition js depth c w p = (Inr u, w')"
  shows "isDirty js c w' = Inr False \<or> records_agree c w'"
proof -
  from assms(2) obtain b w1 where
    md: "maybeDiscard js depth c w (Some p) = (Inr b, w1)" and
    fin: "(p \<noteq> position_f (cursors w1 c) \<and> moveInternal js c w1 p = (Inr u, w'))
          \<or> w' = w1"
    by (subst (asm) setPosition.simps) (auto split: sum.splits if_splits prod.splits)
  from fin show ?thesis
  proof
    assume "p \<noteq> position_f (cursors w1 c) \<and> moveInternal js c w1 p = (Inr u, w')"
    then show ?thesis using moveInternal_agree [of js c w1 p u w'] by simp
  next
    assume "w' = w1"
    then show ?thesis using maybeDiscard_settled [OF assms(1) md] by simp
  qed
qed

lemma discard_settled:
  "discard js depth c w p = (Inr u, w')
   \<Longrightarrow> isDirty js c w' = Inr False \<or> records_agree c w'"
proof (induction depth arbitrary: w p u w')
  case 0
  from 0 have cur: "assertCurrentRecord c w = Inr ()"
    by (subst (asm) discard.simps) (auto split: sum.splits)
  from 0 obtain d where d: "isDirty js c w = Inr d"
    by (subst (asm) discard.simps) (auto simp: cur split: sum.splits)
  show ?case
  proof (cases d)
    case False
    with 0 d cur show ?thesis by (subst (asm) discard.simps) simp
  next
    case True
    with 0 d cur show ?thesis
      by (auto simp: discard_dirty_eq discard_reverted_agree split: if_splits)
  qed
next
  case (Suc depth)
  from Suc.prems have cur: "assertCurrentRecord c w = Inr ()"
    by (subst (asm) discard.simps) (auto split: sum.splits)
  from Suc.prems obtain d where d: "isDirty js c w = Inr d"
    by (subst (asm) discard.simps) (auto simp: cur split: sum.splits)
  show ?case
  proof (cases d)
    case False
    with Suc.prems d cur show ?thesis by (subst (asm) discard.simps) simp
  next
    case True
    with Suc.prems d cur show ?thesis
      by (auto simp: discard_dirty_eq discard_reverted_agree
          split: if_splits prod.splits sum.splits
          dest: setPosition_settled [OF Suc.IH, rotated])
  qed
qed

lemma discard_clean:
  assumes "discard js depth c w p = (Inr u, w')" and "loaded_equals_itself js c w'"
  shows "isDirty js c w' = Inr False"
  using discard_settled [OF assms(1)] records_agree_clean [OF _ assms(2)] by blast

lemma save_returns:
  assumes "save js c w s f a = (Inr q, w')"
  shows "\<exists>w1 w2. save_write js c w f a = (Inr q, w1) \<and> reloadRecord js c w1 = (Inr (), w2)
           \<and> (w' = w2\<lparr>trace := trace w2 @ [CursorEvent c (RowEvent SAVE q)]\<rparr>
              \<or> moveInternal js c (w2\<lparr>trace := trace w2 @ [CursorEvent c (RowEvent SAVE q)]\<rparr>) q
                  = (Inr (), w'))"
  using assms
  by (auto simp: save_def Let_def split: sum.splits prod.splits if_splits)

lemma save_agree:
  assumes "save js c w s f a = (Inr q, w')"
  shows "records_agree c w'"
proof -
  from save_returns [OF assms] obtain w1 w2 where
    rl: "reloadRecord js c w1 = (Inr (), w2)" and
    fin: "w' = w2\<lparr>trace := trace w2 @ [CursorEvent c (RowEvent SAVE q)]\<rparr>
          \<or> moveInternal js c (w2\<lparr>trace := trace w2 @ [CursorEvent c (RowEvent SAVE q)]\<rparr>) q
              = (Inr (), w')"
    by blast
  from fin show ?thesis
  proof
    assume "w' = w2\<lparr>trace := trace w2 @ [CursorEvent c (RowEvent SAVE q)]\<rparr>"
    then show ?thesis using reloadRecord_agree [OF rl] by simp
  next
    assume "moveInternal js c (w2\<lparr>trace := trace w2 @ [CursorEvent c (RowEvent SAVE q)]\<rparr>) q
              = (Inr (), w')"
    then show ?thesis by (rule moveInternal_agree)
  qed
qed

text \<open>
  C8, for records whose \<open>hasOwnProperty\<close> is the built-in method and loaded values that
  are loosely equal to themselves. \<open>isDirty\<close> is the symmetric per-key diff of the current
  and the loaded record: true exactly when some key is present on one side only or has
  loosely unequal values on the two sides. With no current record it is false; it is
  false for a cursor just constructed; and it is false after every \<open>discard\<close> and after
  every \<open>save\<close> that returns, provided every loaded value is then loosely equal to itself.
\<close>

theorem isDirty_symmetric_diff:
  "(currentRecordValues_f (cursors w c) = Some v \<and> currentRecordAsLoaded_f (cursors w c) = Some l
     \<and> hasOwnProperty_is_builtin js (heap w v) \<and> hasOwnProperty_is_builtin js (heap w l)
      \<longrightarrow> isDirty js c w = Inr (records_differ js (heap w v) (heap w l)))
   \<and> (currentRecordValues_f (cursors w c) = None \<longrightarrow> isDirty js c w = Inr False)
   \<and> isDirty js (fst (Cursor w)) (snd (Cursor w)) = Inr False
   \<and> (discard js depth c w p = (Inr u, w') \<and> loaded_equals_itself js c w'
      \<longrightarrow> isDirty js c w' = Inr False)
   \<and> (save js c w s f a = (Inr q, w'') \<and> loaded_equals_itself js c w''
      \<longrightarrow> isDirty js c w'' = Inr False)"
proof (intro conjI impI)
  assume "currentRecordValues_f (cursors w c) = Some v
          \<and> currentRecordAsLoaded_f (cursors w c) = Some l
          \<and> hasOwnProperty_is_builtin js (heap w v) \<and> hasOwnProperty_is_builtin js (heap w l)"
  then show "isDirty js c w = Inr (records_differ js (heap w v) (heap w l))"
    by (simp add: isDirty_records)
next
  assume "currentRecordValues_f (cursors w c) = None"
  then show "isDirty js c w = Inr False" by (simp add: isDirty_def)
next
  show "isDirty js (fst (Cursor w)) (snd (Cursor w)) = Inr False"
    by (simp add: Cursor_def isDirty_def)
next
  assume "discard js depth c w p = (Inr u, w') \<and> loaded_equals_itself js c w'"
  then show "isDirty js c w' = Inr False"
    using discard_clean [of js depth c w p u w'] by simp
next
  assume "save js c w s f a = (Inr q, w'') \<and> loaded_equals_itself js c w''"
  then show "isDirty js c w'' = Inr False"
    using save_agree [of js c w s f a q w''] records_agree_clean [of c w'' js] by simp
qed

theorem isDirty_symmetric_diff_witness:
  "currentRecordValues_f (cursors test_cursor_dirty_at_0 0) = Some 0
   \<and> currentRecordAsLoaded_f (cursors test_cursor_dirty_at_0 0) = Some 1
   \<and> heap test_cursor_dirty_at_0 0 = [(''id'', TNum_1), (''name'', TStr_whee)]
   \<and> heap test_cursor_dirty_at_0 1 = [(''id'', TNum_1), (''name'', TStr_John)]
   \<and> hasOwnProperty_is_builtin js_test (heap test_cursor_dirty_at_0 0)
   \<and> hasOwnProperty_is_builtin js_test (heap test_cursor_dirty_at_0 1)
   \<and> isDirty js_test 0 test_cursor_dirty_at_0 = Inr True
   \<and> heap test_cursor_id_as_string 0 = [(''id'', TStr_1_0), (''name'', TStr_John)]
   \<and> heap test_cursor_id_as_string 1 = [(''id'', TNum_1), (''name'', TStr_John)]
   \<and> isDirty js_test 0 test_cursor_id_as_string = Inr False
   \<and> currentRecordValues_f (cursors test_cursor_at_BOF 0) = None
   \<and> isDirty js_test 0 test_cursor_at_BOF = Inr False
   \<and> fst (discard js_test test_depth 0 test_cursor_dirty_at_0 None) = Inr ()
   \<and> loaded_equals_itself js_test 0 (snd (discard js_test test_depth 0 test_cursor_dirty_at_0 None))
   \<and> isDirty js_test 0 (snd (discard js_test test_depth 0 test_cursor_dirty_at_0 None)) = Inr False
   \<and> fst (save js_test 0 test_cursor_dirty_at_0 False False None) = Inr (Index 0)
   \<and> loaded_equals_itself js_test 0 (snd (save js_test 0 test_cursor_dirty_at_0 False False None))
   \<and> isDirty js_test 0 (snd (save js_test 0 test_cursor_dirty_at_0 False False None)) = Inr False"
proof -
  have v: "currentRecordValues_f (cursors test_cursor_dirty_at_0 0) = Some 0" by code_simp
  have l: "currentRecordAsLoaded_f (cursors test_cursor_dirty_at_0 0) = Some 1" by code_simp
  have hv: "heap test_cursor_dirty_at_0 0 = [(''id'', TNum_1), (''name'', TStr_whee)]"
    by code_simp
  have hl: "heap test_cursor_dirty_at_0 1 = [(''id'', TNum_1), (''name'', TStr_John)]"
    by code_simp
  have bv: "hasOwnProperty_is_builtin js_test [(''id'', TNum_1), (''name'', TStr_whee)]"
    by code_simp
  have bl: "hasOwnProperty_is_builtin js_test [(''id'', TNum_1), (''name'', TStr_John)]"
    by code_simp
  have rd: "records_differ js_test [(''id'', TNum_1), (''name'', TStr_whee)]
              [(''id'', TNum_1), (''name'', TStr_John)]"
    by code_simp
  have sv: "currentRecordValues_f (cursors test_cursor_id_as_string 0) = Some 0" by code_simp
  have sl: "currentRecordAsLoaded_f (cursors test_cursor_id_as_string 0) = Some 1" by code_simp
  have shv: "heap test_cursor_id_as_string 0 = [(''id'', TStr_1_0), (''name'', TStr_John)]"
    by code_simp
  have shl: "heap test_cursor_id_as_string 1 = [(''id'', TNum_1), (''name'', TStr_John)]"
    by code_simp
  have sbv: "hasOwnProperty_is_builtin js_test [(''id'', TStr_1_0), (''name'', TStr_John)]"
    by code_simp
  have srd: "\<not> records_differ js_test [(''id'', TStr_1_0), (''name'', TStr_John)]
              [(''id'', TNum_1), (''name'', TStr_John)]"
    by code_simp
  have n: "currentRecordValues_f (cursors test_cursor_at_BOF 0) = None" by code_simp
  have d: "fst (discard js_test test_depth 0 test_cursor_dirty_at_0 None) = Inr ()" by code_simp
  have de: "loaded_equals_itself js_test 0
              (snd (discard js_test test_depth 0 test_cursor_dirty_at_0 None))" by code_simp
  have s: "fst (save js_test 0 test_cursor_dirty_at_0 False False None) = Inr (Index 0)"
    by code_simp
  have se: "loaded_equals_itself js_test 0
              (snd (save js_test 0 test_cursor_dirty_at_0 False False None))" by code_simp
  show ?thesis
    using v l hv hl bv bl rd n d de s se
      isDirty_symmetric_diff [of test_cursor_dirty_at_0 0 0 1 js_test test_depth None "()"
        "snd (discard js_test test_depth 0 test_cursor_dirty_at_0 None)" False False None
        "Index 0" "snd (save js_test 0 test_cursor_dirty_at_0 False False None)"]
      isDirty_symmetric_diff [of test_cursor_at_BOF 0 _ _ js_test]
      isDirty_symmetric_diff [of test_cursor_id_as_string 0 0 1 js_test]
      sv sl shv shl sbv srd
    by (simp add: prod_eq_iff)
qed

text \<open>
  C8 fails where a loaded value is \<open>NaN\<close>, and where a record owns a property named
  hasOwnProperty. On the datasource whose row has \<open>NaN\<close> for its id, the cursor is dirty
  as soon as it has moved to the row, and is still dirty right after a \<open>save\<close> and right
  after a \<open>discard\<close> that returned. On the datasource with a column named hasOwnProperty
  the two records of the cursor do not differ, and \<open>isDirty\<close> throws a TypeError.
\<close>

theorem isDirty_NaN_counterexample:
  "isDirty js_test 0 nan_cursor_at_0 = Inr True
   \<and> fst (save js_test 0 nan_cursor_at_0 False False None) = Inr (Index 0)
   \<and> isDirty js_test 0 (snd (save js_test 0 nan_cursor_at_0 False False None)) = Inr True
   \<and> fst (discard js_test test_depth 0 nan_cursor_at_0 None) = Inr ()
   \<and> isDirty js_test 0 (snd (discard js_test test_depth 0 nan_cursor_at_0 None)) = Inr True
   \<and> deref shadowing_cursor_at_0 (currentRecordValues_f (cursors shadowing_cursor_at_0 0))
       = Some [(''id'', TNum_1), (''hasOwnProperty'', TStr_John)]
   \<and> deref shadowing_cursor_at_0 (currentRecordAsLoaded_f (cursors shadowing_cursor_at_0 0))
       = Some [(''id'', TNum_1), (''hasOwnProperty'', TStr_John)]
   \<and> \<not> records_differ js_test [(''id'', TNum_1), (''hasOwnProperty'', TStr_John)]
           [(''id'', TNum_1), (''hasOwnProperty'', TStr_John)]
   \<and> isDirty js_test 0 shadowing_cursor_at_0 = Inl TypeError"
  by code_simp

section \<open>Key presence in the two diffs\<close>

lemma getProperty_not_owned:
  "\<not> owns obj k \<Longrightarrow> Object_prototype js k = None \<Longrightarrow> getProperty js obj k = js_undefined js"
  using map_of_eq_None_iff [of obj k]
  by (simp add: owns_def keys_def getProperty_def lookup_def)

lemma records_differ_ownership:
  assumes "owns n k \<noteq> owns ol k"
  shows "records_differ js n ol"
  using assms unfolding records_differ_def list_ex_iff owns_def
  by auto

text \<open>
  C10, for a key that is not a member of \<open>Object.prototype\<close> and records whose
  \<open>hasOwnProperty\<close> is the built-in method. The two diffs disagree on key presence. If the
  expected record owns a key whose value is loosely equal to \<open>undefined\<close> (it is
  \<open>undefined\<close> or \<open>null\<close>), the actual record at a valid index does not own that key, and
  every other key of either record has loosely equal values, then \<open>atomicReplace\<close> raises
  no ConcurrentModification: it returns, and the row is replaced by the new values.
  \<open>isDirty\<close> is true whenever some key is owned by only one of the current and the loaded
  record, whatever its value.
\<close>

theorem atomicReplace_isDirty_key_presence:
  "(0 \<le> rowIndex \<and> rowIndex < int (length (data_f w))
     \<and> hasOwnProperty_is_builtin js expected
     \<and> hasOwnProperty_is_builtin js (data_f w ! nat rowIndex)
     \<and> owns expected k \<and> \<not> owns (data_f w ! nat rowIndex) k
     \<and> Object_prototype js k = None
     \<and> \<not> loose_ne js (getProperty js expected k) (js_undefined js)
     \<and> list_all (\<lambda>k'. k' = k \<or> \<not> loose_ne js (getProperty js expected k')
                                        (getProperty js (data_f w ! nat rowIndex) k'))
          (keys expected @ keys (data_f w ! nat rowIndex))
    \<longrightarrow> atomicReplace js w rowIndex (Some expected) (Some next)
        = (Inr (), w\<lparr>data_f := (data_f w)[nat rowIndex := clone (Some next)],
                     trace := trace w @ [DatasourceEvent ROWS_UPDATE [rowIndex]]\<rparr>))
   \<and> (currentRecordValues_f (cursors w c) = Some v
       \<and> currentRecordAsLoaded_f (cursors w c) = Some l
       \<and> hasOwnProperty_is_builtin js (heap w v) \<and> hasOwnProperty_is_builtin js (heap w l)
       \<and> owns (heap w v) k' \<noteq> owns (heap w l) k'
      \<longrightarrow> isDirty js c w = Inr True)"
proof (intro conjI impI)
  assume a: "0 \<le> rowIndex \<and> rowIndex < int (length (data_f w))
     \<and> hasOwnProperty_is_builtin js expected
     \<and> hasOwnProperty_is_builtin js (data_f w ! nat rowIndex)
     \<and> owns expected k \<and> \<not> owns (data_f w ! nat rowIndex) k
     \<and> Object_prototype js k = None
     \<and> \<not> loose_ne js (getProperty js expected k) (js_undefined js)
     \<and> list_all (\<lambda>k'. k' = k \<or> \<not> loose_ne js (getProperty js expected k')
                                        (getProperty js (data_f w ! nat rowIndex) k'))
          (keys expected @ keys (data_f w ! nat rowIndex))"
  then have "getProperty js (data_f w ! nat rowIndex) k = js_undefined js"
    by (simp add: getProperty_not_owned)
  with a have "\<not> loose_ne js (getProperty js expected k) (getProperty js (data_f w ! nat rowIndex) k)"
    by simp
  with a have "key_diff js expected (data_f w ! nat rowIndex) = {}"
    by (auto simp: key_diff_def list_all_iff)
  with a show "atomicReplace js w rowIndex (Some expected) (Some next)
        = (Inr (), w\<lparr>data_f := (data_f w)[nat rowIndex := clone (Some next)],
                     trace := trace w @ [DatasourceEvent ROWS_UPDATE [rowIndex]]\<rparr>)"
    by (simp add: atomicReplace_key_diff replace_in_range)
next
  assume b: "currentRecordValues_f (cursors w c) = Some v
       \<and> currentRecordAsLoaded_f (cursors w c) = Some l
       \<and> hasOwnProperty_is_builtin js (heap w v) \<and> hasOwnProperty_is_builtin js (heap w l)
       \<and> owns (heap w v) k' \<noteq> owns (heap w l) k'"
  then have "records_differ js (heap w v) (heap w l)"
    by (intro records_differ_ownership [of _ k']) simp
  with b show "isDirty js c w = Inr True"
    by (simp add: isDirty_records)
qed

theorem atomicReplace_isDirty_key_presence_witness:
  "owns [(''id'', TNum_2), (''name'', TStr_James), (''note'', TNull)] ''note''
   \<and> \<not> owns (data_f getTestDataSource ! nat 1) ''note''
   \<and> test_prototype ''note'' = None
   \<and> \<not> test_loose_ne TNull TUndefined
   \<and> atomicReplace js_test getTestDataSource 1
        (Some [(''id'', TNum_2), (''name'', TStr_James), (''note'', TNull)])
        (Some [(''id'', TNum_2), (''name'', TStr_Stuart)])
      = (Inr (), getTestDataSource
           \<lparr>data_f := [[(''id'', TNum_1), (''name'', TStr_John)],
                       [(''id'', TNum_2), (''name'', TStr_Stuart)],
                       [(''id'', TNum_5), (''name'', TStr_Peter)]],
            trace := [DatasourceEvent ROWS_UPDATE [1]]\<rparr>)
   \<and> heap test_cursor_new_undefined 0 = [(''name'', TUndefined)]
   \<and> heap test_cursor_new_undefined 1 = []
   \<and> isDirty js_test 0 test_cursor_new_undefined = Inr True"
proof -
  let ?e = "[(''id'', TNum_2), (''name'', TStr_James), (''note'', TNull)]"
  have data: "data_f getTestDataSource =
      [[(''id'', TNum_1), (''name'', TStr_John)],
       [(''id'', TNum_2), (''name'', TStr_James)],
       [(''id'', TNum_5), (''name'', TStr_Peter)]]"
    by (simp add: getTestDataSource_def SimpleDatasource_def)
  have tr: "trace getTestDataSource = []"
    by (simp add: getTestDataSource_def SimpleDatasource_def)
  have len: "(0::int) \<le> 1 \<and> 1 < int (length (data_f getTestDataSource))"
    by (simp add: data)
  have be: "hasOwnProperty_is_builtin js_test ?e" by code_simp
  have ba: "hasOwnProperty_is_builtin js_test (data_f getTestDataSource ! nat 1)" by code_simp
  have own: "owns ?e ''note''" by code_simp
  have miss: "\<not> owns (data_f getTestDataSource ! nat 1) ''note''" by code_simp
  have proto: "test_prototype ''note'' = None" by code_simp
  have undef: "\<not> test_loose_ne TNull TUndefined" by code_simp
  have undef': "\<not> loose_ne js_test (getProperty js_test ?e ''note'') (js_undefined js_test)"
    by code_simp
  have others: "list_all (\<lambda>k'. k' = ''note'' \<or> \<not> loose_ne js_test (getProperty js_test ?e k')
                                        (getProperty js_test (data_f getTestDataSource ! nat 1) k'))
          (keys ?e @ keys (data_f getTestDataSource ! nat 1))"
    by code_simp
  have v: "currentRecordValues_f (cursors test_cursor_new_undefined 0) = Some 0" by code_simp
  have l: "currentRecordAsLoaded_f (cursors test_cursor_new_undefined 0) = Some 1" by code_simp
  have hv: "heap test_cursor_new_undefined 0 = [(''name'', TUndefined)]" by code_simp
  have hl: "heap test_cursor_new_undefined 1 = []" by code_simp
  have bv: "hasOwnProperty_is_builtin js_test (heap test_cursor_new_undefined 0)" by code_simp
  have bl: "hasOwnProperty_is_builtin js_test (heap test_cursor_new_undefined 1)" by code_simp
  have diff: "owns (heap test_cursor_new_undefined 0) ''name''
              \<noteq> owns (heap test_cursor_new_undefined 1) ''name''"
    by code_simp
  have proto': "Object_prototype js_test ''note'' = None"
    using proto by (simp add: js_test_def)
  show ?thesis
    using atomicReplace_isDirty_key_presence [of 1 getTestDataSource js_test ?e "''note''"
        "[(''id'', TNum_2), (''name'', TStr_Stuart)]"]
      atomicReplace_isDirty_key_presence [of _ test_cursor_new_undefined js_test _ _ _ 0 0 1
        "''name''"]
      len be ba own miss proto proto' undef undef' others v l hv hl bv bl diff
    by (simp add: data tr)
qed

text \<open>
  C10 fails for a key that is a member of \<open>Object.prototype\<close>, and for a record that owns
  a property named hasOwnProperty. The expected record owns toString, mapped to
  \<open>undefined\<close>; row 1 does not own it and every other key is equal; \<open>atomicReplace\<close> reads
  the inherited function from the actual record and throws ConcurrentModification. On
  the datasource with a column named hasOwnProperty, the expected record owns note,
  mapped to \<open>undefined\<close>, and is equal to row 0 on every other key; \<open>atomicReplace\<close> throws
  a TypeError.
\<close>

theorem atomicReplace_inherited_key_counterexample:
  "owns [(''id'', TNum_2), (''name'', TStr_James), (''toString'', TUndefined)] ''toString''
   \<and> \<not> owns (data_f getTestDataSource ! nat 1) ''toString''
   \<and> list_all (\<lambda>k'. k' = ''toString''
          \<or> \<not> loose_ne js_test
                (getProperty js_test
                   [(''id'', TNum_2), (''name'', TStr_James), (''toString'', TUndefined)] k')
                (getProperty js_test (data_f getTestDataSource ! nat 1) k'))
        (keys [(''id'', TNum_2), (''name'', TStr_James), (''toString'', TUndefined)]
         @ keys (data_f getTestDataSource ! nat 1))
   \<and> fst (atomicReplace js_test getTestDataSource 1
        (Some [(''id'', TNum_2), (''name'', TStr_James), (''toString'', TUndefined)])
        (Some [(''id'', TNum_2), (''name'', TStr_Stuart)]))
      = Inl (ConcurrentModification [(''id'', TNum_2), (''name'', TStr_James)])
   \<and> data_f (snd (atomicReplace js_test getTestDataSource 1
        (Some [(''id'', TNum_2), (''name'', TStr_James), (''toString'', TUndefined)])
        (Some [(''id'', TNum_2), (''name'', TStr_Stuart)])))
      = data_f getTestDataSource
   \<and> owns [(''id'', TNum_1), (''hasOwnProperty'', TStr_John), (''note'', TUndefined)] ''note''
   \<and> \<not> owns (data_f shadowing_datasource ! nat 0) ''note''
   \<and> list_all (\<lambda>k'. k' = ''note''
          \<or> \<not> loose_ne js_test
                (getProperty js_test
                   [(''id'', TNum_1), (''hasOwnProperty'', TStr_John), (''note'', TUndefined)] k')
                (getProperty js_test (data_f shadowing_datasource ! nat 0) k'))
        (keys [(''id'', TNum_1), (''hasOwnProperty'', TStr_John), (''note'', TUndefined)]
         @ keys (data_f shadowing_datasource ! nat 0))
   \<and> fst (atomicReplace js_test shadowing_datasource 0
        (Some [(''id'', TNum_1), (''hasOwnProperty'', TStr_John), (''note'', TUndefined)])
        (Some [(''id'', TNum_2), (''hasOwnProperty'', TStr_John)]))
      = Inl TypeError
   \<and> data_f (snd (atomicReplace js_test shadowing_datasource 0
        (Some [(''id'', TNum_1), (''hasOwnProperty'', TStr_John), (''note'', TUndefined)])
        (Some [(''id'', TNum_2), (''hasOwnProperty'', TStr_John)])))
      = data_f shadowing_datasource"
  by code_simp

section \<open>Saving a new record\<close>

lemma handleDataSourceRowInsert_after:
  assumes "case position_f (cursors w c) of Index q \<Rightarrow> q < n | _ \<Rightarrow> True"
  shows "handleDataSourceRowInsert js c w [n] = (Inr (), w)"
  using assms
  by (cases "position_f (cursors w c)") (simp_all add: handleDataSourceRowInsert_def)

lemma dispatch_ROWS_INSERT_after:
  assumes "list_all (\<lambda>c. case position_f (cursors w c) of Index q \<Rightarrow> q < n | _ \<Rightarrow> True) cs"
  shows "dispatch_ROWS_INSERT js cs w [n] = (Inr (), w)"
  using assms by (induction cs) (simp_all add: handleDataSourceRowInsert_after)

lemma add_at_end:
  assumes "cursor_positions_in_range w"
  shows "add js w newRecord =
           (Inr (int (length (data_f w))),
            w\<lparr>data_f := data_f w @ [clone newRecord],
              trace := trace w @ [DatasourceEvent ROWS_INSERT [int (length (data_f w))]]\<rparr>)"
proof -
  let ?n = "int (length (data_f w))"
  let ?w1 = "w\<lparr>data_f := data_f w @ [clone newRecord],
              trace := trace w @ [DatasourceEvent ROWS_INSERT [?n]]\<rparr>"
  have "list_all (\<lambda>c. case position_f (cursors ?w1 c) of Index q \<Rightarrow> q < ?n | _ \<Rightarrow> True)
          [0..<cursorCount ?w1]"
    using assms by (simp add: cursor_positions_in_range_def)
  then have "dispatch_ROWS_INSERT js [0..<cursorCount ?w1] ?w1 [?n] = (Inr (), ?w1)"
    by (rule dispatch_ROWS_INSERT_after)
  then have "insert_ds js w ?n newRecord = (Inr (), ?w1)"
    by (simp add: insert_ds_def assertValidRow_def Let_def)
  then show ?thesis
    by (simp add: add_def Let_def)
qed

lemma save_write_new:
  assumes "position_f (cursors w c) = NEW" and "cursor_positions_in_range w"
  shows "save_write js c w force att =
           (Inr (Index (int (length (data_f w)))),
            w\<lparr>data_f := data_f w @ [clone (deref w (currentRecordValues_f (cursors w c)))],
              trace := trace w @ [DatasourceEvent ROWS_INSERT [int (length (data_f w))]]\<rparr>)"
  using assms by (simp add: save_write_def Let_def add_at_end)

lemma reloadRecord_new:
  assumes "position_f (cursors w c) = NEW"
  shows "reloadRecord js c w =
           (Inr (),
            w\<lparr>heap := (heap w)(nextRef w := [], Suc (nextRef w) := []),
              nextRef := Suc (Suc (nextRef w)),
              cursors := (cursors w)(c := (cursors w c)
                 \<lparr>currentRecordValues_f := Some (nextRef w),
                  currentRecordAsLoaded_f := Some (Suc (nextRef w))\<rparr>)\<rparr>)"
  using assms by (simp add: reloadRecord_def new_object_def set_records_def Let_def)

lemma reloadRecord_data: "data_f (snd (reloadRecord js c w)) = data_f w"
  by (simp add: reloadRecord_def set_records_def new_object_def Let_def
      split: position.splits sum.splits prod.splits)

lemma moveInternal_data: "data_f (snd (moveInternal js c w p)) = data_f w"
proof -
  let ?w1 = "w\<lparr>cursors := (cursors w)(c := (cursors w c)\<lparr>position_f := p\<rparr>)\<rparr>"
  obtain r w2 where rr: "reloadRecord js c ?w1 = (r, w2)" by fastforce
  have "data_f w2 = data_f w"
    using reloadRecord_data [of js c ?w1] rr by simp
  then show ?thesis
    by (cases r) (simp_all add: moveInternal_def Let_def rr)
qed

lemma save_new_eq:
  assumes "position_f (cursors w c) = NEW" and "cursor_positions_in_range w"
  shows "save js c w suppress force att =
           (if suppress then (Inr (Index (int (length (data_f w)))), save_new_saved c w)
            else (case moveInternal js c (save_new_saved c w) (Index (int (length (data_f w)))) of
                    (Inl e, w4) \<Rightarrow> (Inl e, w4)
                  | (Inr _, w4) \<Rightarrow> (Inr (Index (int (length (data_f w)))), w4)))"
proof -
  let ?w1 = "w\<lparr>data_f := data_f w @ [clone (deref w (currentRecordValues_f (cursors w c)))],
              trace := trace w @ [DatasourceEvent ROWS_INSERT [int (length (data_f w))]]\<rparr>"
  have cur: "assertCurrentRecord c w = Inr ()"
    using assms(1) by (simp add: assertCurrentRecord_def)
  have pos1: "position_f (cursors ?w1 c) = NEW"
    using assms(1) by simp
  show ?thesis
    by (simp add: save_def cur save_write_new [OF assms] reloadRecord_new [OF pos1]
        save_new_saved_def assms(1) Let_def)
qed

text \<open>
  C4, where every cursor listening to the datasource stands on a valid position. At NEW
  \<open>save\<close> returns the index of the new record, which is the old row count; the
  datasource has exactly one row more, the new last row, and it holds the cursor's
  current values. Unless \<open>suppressMoveTo\<close> is set the cursor then rests on that index; if
  it is set the cursor stays at NEW and \<open>getCurrentValues\<close> returns an empty record.
\<close>

theorem save_new:
  assumes "position_f (cursors w c) = NEW" and "cursor_positions_in_range w"
  shows "fst (save js c w suppress force att) = Inr (Index (int (length (data_f w))))
       \<and> length (data_f (snd (save js c w suppress force att))) = length (data_f w) + 1
       \<and> data_f (snd (save js c w suppress force att))
           = data_f w @ [clone (deref w (currentRecordValues_f (cursors w c)))]
       \<and> position_f (cursors (snd (save js c w suppress force att)) c)
           = (if suppress then NEW else Index (int (length (data_f w))))
       \<and> (if suppress
           then (case getCurrentValues c (snd (save js c w suppress force att)) of
                   (Inr r, w') \<Rightarrow> heap w' r = []
                 | (Inl e, w') \<Rightarrow> False)
           else True)"
proof (cases suppress)
  case True
  have eq: "save js c w True force att
                 = (Inr (Index (int (length (data_f w)))), save_new_saved c w)"
    by (simp add: save_new_eq [OF assms])
  have "assertCurrentRecord c (save_new_saved c w) = Inr ()"
    using assms(1) by (simp add: assertCurrentRecord_def save_new_saved_def)
  then have gc: "getCurrentValues c (save_new_saved c w)
             = (Inr (Suc (Suc (nextRef w))),
                (save_new_saved c w)\<lparr>heap := (heap (save_new_saved c w))(Suc (Suc (nextRef w)) := []),
                                       nextRef := Suc (Suc (Suc (nextRef w)))\<rparr>)"
    by (simp add: getCurrentValues_def new_object_def deref_def save_new_saved_def)
  have "data_f (save_new_saved c w)
          = data_f w @ [clone (deref w (currentRecordValues_f (cursors w c)))]"
    and "position_f (cursors (save_new_saved c w) c) = NEW"
    using assms(1) by (simp_all add: save_new_saved_def)
  then show ?thesis
    using True by (simp add: eq gc)
next
  case False
  let ?n = "int (length (data_f w))"
  have "assertValidPosition (save_new_saved c w) (Index ?n) = Inr True"
    by (simp add: assertValidPosition_def getRowCount_def getCount_def save_new_saved_def)
  then have ok: "fst (moveInternal js c (save_new_saved c w) (Index ?n)) = Inr ()"
    by (rule moveInternal_in_range)
  obtain w4 where mi: "moveInternal js c (save_new_saved c w) (Index ?n) = (Inr (), w4)"
    using ok by (cases "moveInternal js c (save_new_saved c w) (Index ?n)") auto
  have eq: "save js c w False force att = (Inr (Index ?n), w4)"
    by (simp add: save_new_eq [OF assms] mi)
  have "position_f (cursors w4 c) = Index ?n"
    using moveInternal_position [of js c "save_new_saved c w" "Index ?n"] mi by simp
  moreover have "data_f w4 = data_f (save_new_saved c w)"
    using moveInternal_data [of js c "save_new_saved c w" "Index ?n"] mi by simp
  moreover have "data_f (save_new_saved c w)
          = data_f w @ [clone (deref w (currentRecordValues_f (cursors w c)))]"
    by (simp add: save_new_saved_def)
  ultimately show ?thesis
    using False by (simp add: eq)
qed

theorem save_new_witness:
  "position_f (cursors test_cursor_new 0) = NEW
   \<and> cursor_positions_in_range test_cursor_new
   \<and> length (data_f test_cursor_new) = 3
   \<and> deref test_cursor_new (currentRecordValues_f (cursors test_cursor_new 0))
       = Some [(''id'', TStr_foo), (''name'', TStr_bar)]
   \<and> fst (save js_test 0 test_cursor_new False False None) = Inr (Index 3)
   \<and> length (data_f (snd (save js_test 0 test_cursor_new False False None))) = 4
   \<and> data_f (snd (save js_test 0 test_cursor_new False False None)) ! 3
       = [(''id'', TStr_foo), (''name'', TStr_bar)]
   \<and> position_f (cursors (snd (save js_test 0 test_cursor_new False False None)) 0) = Index 3
   \<and> fst (save js_test 0 test_cursor_new True False None) = Inr (Index 3)
   \<and> length (data_f (snd (save js_test 0 test_cursor_new True False None))) = 4
   \<and> data_f (snd (save js_test 0 test_cursor_new True False None)) ! 3
       = [(''id'', TStr_foo), (''name'', TStr_bar)]
   \<and> position_f (cursors (snd (save js_test 0 test_cursor_new True False None)) 0) = NEW"
proof -
  have p: "position_f (cursors test_cursor_new 0) = NEW" by code_simp
  have r: "cursor_positions_in_range test_cursor_new" by code_simp
  have n: "length (data_f test_cursor_new) = 3" by code_simp
  have v: "deref test_cursor_new (currentRecordValues_f (cursors test_cursor_new 0))
             = Some [(''id'', TStr_foo), (''name'', TStr_bar)]" by code_simp
  show ?thesis
    using p r n v save_new [OF p r, of js_test False False None]
      save_new [OF p r, of js_test True False None]
    by (simp add: nth_append)
qed

text \<open>
  C4 fails beside a cursor that stands past the end. The second cursor was moved to row
  2 and row 2 was then removed, leaving two rows; the first cursor is at NEW with an id
  and a name. Its \<open>save\<close> adds the row, and the ROWS_INSERT handler of the second cursor
  then moves that cursor to index 3, which does not exist: \<open>save\<close> throws NoSuchRecord
  with the row added, returns no index, and the first cursor is still at NEW with its
  values.
\<close>

theorem save_new_beside_past_end_counterexample:
  "position_f (cursors new_beside_past_end 0) = NEW
   \<and> position_f (cursors new_beside_past_end 1) = Index 2
   \<and> length (data_f new_beside_past_end) = 2
   \<and> fst (save js_test 0 new_beside_past_end False False None) = Inl NoSuchRecord
   \<and> data_f (snd (save js_test 0 new_beside_past_end False False None))
       = data_f new_beside_past_end @ [[(''id'', TStr_foo), (''name'', TStr_bar)]]
   \<and> position_f (cursors (snd (save js_test 0 new_beside_past_end False False None)) 0) = NEW
   \<and> deref (snd (save js_test 0 new_beside_past_end False False None))
        (currentRecordValues_f
           (cursors (snd (save js_test 0 new_beside_past_end False False None)) 0))
       = Some [(''id'', TStr_foo), (''name'', TStr_bar)]"
  by code_simp

section \<open>Saving over a concurrent modification\<close>

lemma replace_not_ConcurrentModification:
  "fst (replace w i newRecord) \<noteq> Inl (ConcurrentModification a)"
  by (simp add: replace_def assertValidRow_def Let_def)

lemma assertValidRow_error:
  "assertValidRow w i m = Inl e \<Longrightarrow> e = NoSuchRecord"
  by (simp add: assertValidRow_def Let_def split: if_splits)

lemma atomicReplace_ConcurrentModification:
  assumes "fst (atomicReplace js w i e n) = Inl (ConcurrentModification a)"
  shows "atomicReplace js w i e n = (Inl (ConcurrentModification a), w)
         \<and> 0 \<le> i \<and> i < int (length (data_f w))"
proof -
  from assms obtain e' n' where en: "e = Some e'" "n = Some n'"
    by (cases e; cases n) (simp_all add: atomicReplace_def)
  from assms en have valid: "assertValidRow w i None = Inr ()"
    by (cases "assertValidRow w i None")
       (auto simp: atomicReplace_def dest: assertValidRow_error)
  then have range: "0 \<le> i \<and> i < int (length (data_f w))"
    by (simp add: assertValidRow_def split: if_splits)
  then have eq: "atomicReplace js w i (Some e') (Some n') =
           (case isDifferent js e' (data_f w ! nat i) of
              Inl x \<Rightarrow> (Inl x, w)
            | Inr different \<Rightarrow>
                if different then (Inl (ConcurrentModification (data_f w ! nat i)), w)
                else replace w i (Some n'))"
    by (simp add: atomicReplace_def get_in_range)
  show ?thesis
  proof (cases "isDifferent js e' (data_f w ! nat i)")
    case (Inl x)
    with assms en eq isDifferent_error [OF Inl] show ?thesis by simp
  next
    case (Inr different)
    show ?thesis
    proof (cases different)
      case True
      with assms en eq range Inr show ?thesis by simp
    next
      case False
      with assms en eq Inr replace_not_ConcurrentModification [of w i "Some n'" a]
      show ?thesis by simp
    qed
  qed
qed

lemma reloadRecord_trace: "trace (snd (reloadRecord js c w)) = trace w"
  by (simp add: reloadRecord_def set_records_def new_object_def Let_def
      split: position.splits sum.splits prod.splits)

lemma save_write_conflict:
  assumes pos: "position_f (cursors w c) = Index i"
    and cm: "fst (atomicReplace js w i (deref w (currentRecordAsLoaded_f (cursors w c)))
                    (deref w (currentRecordValues_f (cursors w c))))
             = Inl (ConcurrentModification actual)"
  shows "save_write js c w False att =
           (if cancels c w (before_overwrite_event (Index i) att)
            then (Inl OverwriteBlocked,
                  w\<lparr>trace := trace w @ [CursorEvent c (before_overwrite_event (Index i) att)]\<rparr>)
            else (Inr (Index i),
                  w\<lparr>data_f := (data_f w)[nat i :=
                                  clone (deref w (currentRecordValues_f (cursors w c)))],
                    trace := trace w @ [CursorEvent c (before_overwrite_event (Index i) att),
                                        DatasourceEvent ROWS_UPDATE [i],
                                        CursorEvent c (RowEvent OVERWRITE (Index i))]\<rparr>))"
proof -
  note ar = atomicReplace_ConcurrentModification [OF cm]
  let ?ev = "before_overwrite_event (Index i) att"
  let ?w2 = "w\<lparr>trace := trace w @ [CursorEvent c ?ev]\<rparr>"
  have rp: "replace ?w2 i (deref w (currentRecordValues_f (cursors w c))) =
              (Inr (), ?w2\<lparr>data_f := (data_f ?w2)[nat i :=
                                  clone (deref w (currentRecordValues_f (cursors w c)))],
                          trace := trace ?w2 @ [DatasourceEvent ROWS_UPDATE [i]]\<rparr>)"
    using ar by (intro replace_in_range) simp_all
  have ev: "(case att of
               Some attempted \<Rightarrow> MovementEvent BEFORE_OVERWRITE (getPosition c w) (Some attempted)
             | None \<Rightarrow> RowEvent BEFORE_OVERWRITE (getPosition c w)) = ?ev"
    by (simp add: before_overwrite_event_def getPosition_def pos split: option.splits)
  show ?thesis
    using ar
    by (simp add: save_write_def pos Let_def ev dispatchEvent_eq rp getPosition_def)
qed

text \<open>
  C2. A cursor on an integer index whose \<open>save\<close>, not forced, meets ConcurrentModification
  raises BEFORE_OVERWRITE. If a listener cancels it, \<open>save\<close> throws OverwriteBlocked and
  nothing but the notification has happened: the datasource is as it was. If none does,
  the row at the cursor's position is replaced by the current values, OVERWRITE and then
  SAVE are dispatched, and \<open>save\<close> returns the position.
\<close>

theorem save_overwrite_protocol:
  assumes "position_f (cursors w c) = Index i"
    and "fst (atomicReplace js w i (deref w (currentRecordAsLoaded_f (cursors w c)))
                (deref w (currentRecordValues_f (cursors w c))))
         = Inl (ConcurrentModification actual)"
  shows "(cancels c w (before_overwrite_event (Index i) att)
          \<longrightarrow> save js c w suppress False att =
                (Inl OverwriteBlocked,
                 w\<lparr>trace := trace w @ [CursorEvent c (before_overwrite_event (Index i) att)]\<rparr>))
       \<and> (\<not> cancels c w (before_overwrite_event (Index i) att)
          \<longrightarrow> fst (save js c w suppress False att) = Inr (Index i)
              \<and> data_f (snd (save js c w suppress False att))
                  = (data_f w)[nat i := clone (deref w (currentRecordValues_f (cursors w c)))]
              \<and> trace (snd (save js c w suppress False att))
                  = trace w @ [CursorEvent c (before_overwrite_event (Index i) att),
                               DatasourceEvent ROWS_UPDATE [i],
                               CursorEvent c (RowEvent OVERWRITE (Index i)),
                               CursorEvent c (RowEvent SAVE (Index i))])"
proof (intro conjI impI)
  have cur: "assertCurrentRecord c w = Inr ()"
    using assms(1) by (simp add: assertCurrentRecord_def)
  note sw = save_write_conflict [OF assms, of att]
  {
    assume "cancels c w (before_overwrite_event (Index i) att)"
    then show "save js c w suppress False att =
                (Inl OverwriteBlocked,
                 w\<lparr>trace := trace w @ [CursorEvent c (before_overwrite_event (Index i) att)]\<rparr>)"
      by (simp add: save_def cur sw)
  }
  assume nc: "\<not> cancels c w (before_overwrite_event (Index i) att)"
  let ?w4 = "w\<lparr>data_f := (data_f w)[nat i :=
                                  clone (deref w (currentRecordValues_f (cursors w c)))],
                    trace := trace w @ [CursorEvent c (before_overwrite_event (Index i) att),
                                        DatasourceEvent ROWS_UPDATE [i],
                                        CursorEvent c (RowEvent OVERWRITE (Index i))]\<rparr>"
  have range: "0 \<le> i \<and> i < int (length (data_f w))"
    using atomicReplace_ConcurrentModification [OF assms(2)] by simp
  then have "assertValidPosition ?w4 (position_f (cursors ?w4 c)) = Inr True"
    using assms(1) by (simp add: assertValidPosition_def getRowCount_def getCount_def)
  then have ok: "fst (reloadRecord js c ?w4) = Inr ()"
    by (rule reloadRecord_in_range)
  obtain w5 where rl: "reloadRecord js c ?w4 = (Inr (), w5)"
    using ok by (cases "reloadRecord js c ?w4") auto
  have p5: "position_f (cursors w5 c) = Index i"
    using reloadRecord_position [of js c ?w4] rl assms(1) by simp
  have d5: "data_f w5 = data_f ?w4"
    using reloadRecord_data [of js c ?w4] rl by simp
  have t5: "trace w5 = trace ?w4"
    using reloadRecord_trace [of js c ?w4] rl by simp
  have eq: "save js c w suppress False att =
              (Inr (Index i), w5\<lparr>trace := trace w5 @ [CursorEvent c (RowEvent SAVE (Index i))]\<rparr>)"
    using nc by (simp add: save_def cur sw rl p5)
  show "fst (save js c w suppress False att) = Inr (Index i)"
    by (simp add: eq)
  show "data_f (snd (save js c w suppress False att))
          = (data_f w)[nat i := clone (deref w (currentRecordValues_f (cursors w c)))]"
    by (simp add: eq d5)
  show "trace (snd (save js c w suppress False att))
          = trace w @ [CursorEvent c (before_overwrite_event (Index i) att),
                       DatasourceEvent ROWS_UPDATE [i],
                       CursorEvent c (RowEvent OVERWRITE (Index i)),
                       CursorEvent c (RowEvent SAVE (Index i))]"
    by (simp add: eq t5)
qed

lemma two_cursors_data:
  "data_f two_cursors_c1_saved =
     [[(''id'', TNum_1), (''name'', TStr_John)],
      [(''id'', TNum_2), (''name'', TStr_Stuart)],
      [(''id'', TNum_5), (''name'', TStr_Peter)]]"
  by code_simp

lemma two_cursors_c2:
  "position_f (cursors two_cursors_c1_saved (Suc 0)) = Index 1"
  "currentRecordValues_f (cursors two_cursors_c1_saved (Suc 0)) = Some 2"
  "currentRecordAsLoaded_f (cursors two_cursors_c1_saved (Suc 0)) = Some 3"
  "length (listeners (cursors two_cursors_c1_saved (Suc 0))) = 0"
  by code_simp+

lemma two_cursors_c2_values:
  "heap two_cursors_c1_saved 2 = [(''id'', TNum_2), (''name'', TStr_Jonathan)]"
  by code_simp

lemma two_cursors_c2_loaded:
  "heap two_cursors_c1_saved 3 = [(''id'', TNum_2), (''name'', TStr_James)]"
  by code_simp

lemma two_cursors_c2_listeners: "listeners (cursors two_cursors_c1_saved (Suc 0)) = []"
  using two_cursors_c2(4) by simp

lemma two_cursors_conflict:
  "fst (atomicReplace js_test two_cursors_c1_saved 1
          (Some [(''id'', TNum_2), (''name'', TStr_James)])
          (Some [(''id'', TNum_2), (''name'', TStr_Jonathan)]))
   = Inl (ConcurrentModification [(''id'', TNum_2), (''name'', TStr_Stuart)])"
  by code_simp

lemma atomicReplace_listeners:
  "atomicReplace js (addEventListener c w t h) i e n
   = (fst (atomicReplace js w i e n),
      (if fst (atomicReplace js w i e n) = Inr ()
       then addEventListener c (snd (atomicReplace js w i e n)) t h
       else addEventListener c w t h))"
  by (auto simp: atomicReplace_def addEventListener_def replace_def get_def assertValidRow_def
      Let_def split: option.splits sum.splits)

lemmas two_cursors_facts =
  two_cursors_data two_cursors_c2 two_cursors_c2_listeners two_cursors_c2_values
  two_cursors_c2_loaded

theorem save_overwrite_protocol_witness:
  "data_f two_cursors_c1_saved ! 1 = [(''id'', TNum_2), (''name'', TStr_Stuart)]
   \<and> position_f (cursors c2_refuses_overwrite 1) = Index 1
   \<and> cancels 1 c2_refuses_overwrite (RowEvent BEFORE_OVERWRITE (Index 1))
   \<and> fst (save js_test 1 c2_refuses_overwrite False False None) = Inl OverwriteBlocked
   \<and> data_f (snd (save js_test 1 c2_refuses_overwrite False False None)) ! 1
       = [(''id'', TNum_2), (''name'', TStr_Stuart)]
   \<and> position_f (cursors c2_allows_overwrite 1) = Index 1
   \<and> \<not> cancels 1 c2_allows_overwrite (RowEvent BEFORE_OVERWRITE (Index 1))
   \<and> fst (save js_test 1 c2_allows_overwrite False False None) = Inr (Index 1)
   \<and> data_f (snd (save js_test 1 c2_allows_overwrite False False None)) ! 1
       = [(''id'', TNum_2), (''name'', TStr_Jonathan)]"
proof -
  have r1: "position_f (cursors c2_refuses_overwrite 1) = Index 1"
    by (simp add: c2_refuses_overwrite_def addEventListener_def two_cursors_facts)
  have r2: "fst (atomicReplace js_test c2_refuses_overwrite 1
                   (deref c2_refuses_overwrite
                      (currentRecordAsLoaded_f (cursors c2_refuses_overwrite 1)))
                   (deref c2_refuses_overwrite
                      (currentRecordValues_f (cursors c2_refuses_overwrite 1))))
            = Inl (ConcurrentModification [(''id'', TNum_2), (''name'', TStr_Stuart)])"
    using two_cursors_conflict
    by (simp add: c2_refuses_overwrite_def atomicReplace_listeners)
       (simp add: addEventListener_def two_cursors_facts deref_def)
  have r3: "cancels 1 c2_refuses_overwrite (RowEvent BEFORE_OVERWRITE (Index 1))"
    by (simp add: c2_refuses_overwrite_def addEventListener_def two_cursors_facts cancels_def)
  have r4: "data_f c2_refuses_overwrite ! 1 = [(''id'', TNum_2), (''name'', TStr_Stuart)]"
    by (simp add: c2_refuses_overwrite_def addEventListener_def two_cursors_facts)
  have a1: "position_f (cursors c2_allows_overwrite 1) = Index 1"
    by (simp add: c2_allows_overwrite_def addEventListener_def two_cursors_facts)
  have a2: "fst (atomicReplace js_test c2_allows_overwrite 1
                   (deref c2_allows_overwrite
                      (currentRecordAsLoaded_f (cursors c2_allows_overwrite 1)))
                   (deref c2_allows_overwrite
                      (currentRecordValues_f (cursors c2_allows_overwrite 1))))
            = Inl (ConcurrentModification [(''id'', TNum_2), (''name'', TStr_Stuart)])"
    using two_cursors_conflict
    by (simp add: c2_allows_overwrite_def atomicReplace_listeners)
       (simp add: addEventListener_def two_cursors_facts deref_def)
  have a3: "\<not> cancels 1 c2_allows_overwrite (RowEvent BEFORE_OVERWRITE (Index 1))"
    by (simp add: c2_allows_overwrite_def addEventListener_def two_cursors_facts cancels_def)
  have a4: "(data_f c2_allows_overwrite)
              [Suc 0 := clone (deref c2_allows_overwrite
                                 (currentRecordValues_f (cursors c2_allows_overwrite 1)))] ! Suc 0
            = [(''id'', TNum_2), (''name'', TStr_Jonathan)]"
    by (simp add: c2_allows_overwrite_def addEventListener_def two_cursors_facts deref_def)
  show ?thesis
    using r1 r3 r4 a1 a3 a4
      save_overwrite_protocol [OF r1 r2, of None False]
      save_overwrite_protocol [OF a1 a2, of None False]
    by (simp add: before_overwrite_event_def two_cursors_data)
qed

section \<open>Discard\<close>












section \<open>Insertion before the cursor\<close>

lemma handleDataSourceRowInsert_reloads:
  assumes "position_f (cursors w c) = Index p" and "i \<le> p"
    and "handleDataSourceRowInsert js c w [i] = (Inr u, w')"
  shows "position_f (cursors w' c) = Index (p + 1) \<and> records_agree c w'"
proof -
  have "moveInternal js c w (Index (p + 1)) = (Inr u, w')"
    using assms by (simp add: handleDataSourceRowInsert_def)
  then show ?thesis
    using moveInternal_position [of js c w "Index (p + 1)"]
      moveInternal_agree [of js c w "Index (p + 1)" u w']
    by simp
qed

lemma handleDataSourceRowInsert_unaffected:
  assumes "case position_f (cursors w c) of Index p \<Rightarrow> p < i | _ \<Rightarrow> True"
  shows "handleDataSourceRowInsert js c w [i] = (Inr (), w)"
  using assms by (rule handleDataSourceRowInsert_after)

text \<open>
  C3, at the input where the code departs from it. The cursor stands on row 2 with an
  unsaved edit. Inserting a row at index 0 moves it to row 3 and raises no BEFORE_DISCARD,
  but \<open>moveInternal\<close> reloads the record: the current values are those of the datasource
  again, the edit is gone and the cursor is no longer dirty.
\<close>

theorem insert_before_cursor_reloads:
  "position_f (cursors test_cursor_dirty_at_2 0) = Index 2
   \<and> deref test_cursor_dirty_at_2 (currentRecordValues_f (cursors test_cursor_dirty_at_2 0))
       = Some [(''id'', TNum_5), (''name'', TStr_Stuart)]
   \<and> isDirty js_test 0 test_cursor_dirty_at_2 = Inr True
   \<and> fst (insert_ds js_test test_cursor_dirty_at_2 0
             (Some [(''id'', TStr_hello), (''name'', TStr_world)])) = Inr ()
   \<and> position_f (cursors (snd (insert_ds js_test test_cursor_dirty_at_2 0
             (Some [(''id'', TStr_hello), (''name'', TStr_world)]))) 0) = Index 3
   \<and> deref (snd (insert_ds js_test test_cursor_dirty_at_2 0
                   (Some [(''id'', TStr_hello), (''name'', TStr_world)])))
         (currentRecordValues_f (cursors (snd (insert_ds js_test test_cursor_dirty_at_2 0
                   (Some [(''id'', TStr_hello), (''name'', TStr_world)]))) 0))
       = Some [(''id'', TNum_5), (''name'', TStr_Peter)]
   \<and> isDirty js_test 0 (snd (insert_ds js_test test_cursor_dirty_at_2 0
             (Some [(''id'', TStr_hello), (''name'', TStr_world)]))) = Inr False
   \<and> trace (snd (insert_ds js_test test_cursor_dirty_at_2 0
             (Some [(''id'', TStr_hello), (''name'', TStr_world)])))
       = trace test_cursor_dirty_at_2
         @ [DatasourceEvent ROWS_INSERT [0],
            CursorEvent 0 (MovementEvent MOVE_TO (Index 2) (Some (Index 3)))]"
  by code_simp

end
